theory Spec2Isabelle
  imports Complex_Main
begin

section \<open>JavaScript numbers\<close>

text \<open>
  A JavaScript number is modelled as an exact real extended with the two infinities and
  NaN. Rounding, overflow of finite operations and the sign of zero are abstracted: every
  zero is the positive zero. The special values are kept because the program divides by a
  stored distance that can be zero.
\<close>

datatype number = Fin real | PInf | NInf | NaN

fun num_neg :: "number \<Rightarrow> number" where
  "num_neg (Fin a) = Fin (- a)"
| "num_neg PInf = NInf"
| "num_neg NInf = PInf"
| "num_neg NaN = NaN"

text \<open>The operator \<^verbatim>\<open>+\<close> on two numbers.\<close>

fun num_add :: "number \<Rightarrow> number \<Rightarrow> number" where
  "num_add (Fin a) (Fin b) = Fin (a + b)"
| "num_add NaN y = NaN"
| "num_add x NaN = NaN"
| "num_add PInf NInf = NaN"
| "num_add NInf PInf = NaN"
| "num_add PInf y = PInf"
| "num_add NInf y = NInf"
| "num_add (Fin a) y = y"

definition num_sub :: "number \<Rightarrow> number \<Rightarrow> number" where
  "num_sub x y = num_add x (num_neg y)"

fun num_mul :: "number \<Rightarrow> number \<Rightarrow> number" where
  "num_mul (Fin a) (Fin b) = Fin (a * b)"
| "num_mul NaN y = NaN"
| "num_mul x NaN = NaN"
| "num_mul (Fin a) PInf = (if a = 0 then NaN else if 0 < a then PInf else NInf)"
| "num_mul (Fin a) NInf = (if a = 0 then NaN else if 0 < a then NInf else PInf)"
| "num_mul PInf (Fin b) = (if b = 0 then NaN else if 0 < b then PInf else NInf)"
| "num_mul NInf (Fin b) = (if b = 0 then NaN else if 0 < b then NInf else PInf)"
| "num_mul PInf PInf = PInf"
| "num_mul PInf NInf = NInf"
| "num_mul NInf PInf = NInf"
| "num_mul NInf NInf = PInf"

text \<open>
  The operator \<^verbatim>\<open>/\<close>. A finite non-zero value divided by zero is an infinity, and
  zero divided by zero is NaN; nothing is raised.
\<close>

fun num_div :: "number \<Rightarrow> number \<Rightarrow> number" where
  "num_div (Fin a) (Fin b) =
     (if b = 0 then (if a = 0 then NaN else if 0 < a then PInf else NInf) else Fin (a / b))"
| "num_div NaN y = NaN"
| "num_div x NaN = NaN"
| "num_div (Fin a) PInf = Fin 0"
| "num_div (Fin a) NInf = Fin 0"
| "num_div PInf (Fin b) = (if 0 \<le> b then PInf else NInf)"
| "num_div NInf (Fin b) = (if 0 \<le> b then NInf else PInf)"
| "num_div x y = NaN"

text \<open>The comparison \<^verbatim>\<open>x < y\<close>; every comparison with NaN is false.\<close>

fun num_less :: "number \<Rightarrow> number \<Rightarrow> bool" where
  "num_less (Fin a) (Fin b) = (a < b)"
| "num_less NaN y = False"
| "num_less x NaN = False"
| "num_less x NInf = False"
| "num_less PInf y = False"
| "num_less NInf y = True"
| "num_less (Fin a) PInf = True"

text \<open>\<^verbatim>\<open>Math.min\<close> and \<^verbatim>\<open>Math.max\<close> of two arguments: NaN if either is NaN.\<close>

definition Math_min :: "number \<Rightarrow> number \<Rightarrow> number" where
  "Math_min x y = (if x = NaN \<or> y = NaN then NaN else if num_less y x then y else x)"

definition Math_max :: "number \<Rightarrow> number \<Rightarrow> number" where
  "Math_max x y = (if x = NaN \<or> y = NaN then NaN else if num_less x y then y else x)"

text \<open>
  The operator \<^verbatim>\<open>%\<close>: the remainder of the division truncated towards zero, so the
  result has the sign of the dividend.
\<close>

definition trunc :: "real \<Rightarrow> int" where
  "trunc x = (if 0 \<le> x then \<lfloor>x\<rfloor> else \<lceil>x\<rceil>)"

fun num_rem :: "number \<Rightarrow> number \<Rightarrow> number" where
  "num_rem (Fin a) (Fin b) = (if b = 0 then NaN else Fin (a - b * of_int (trunc (a / b))))"
| "num_rem (Fin a) PInf = Fin a"
| "num_rem (Fin a) NInf = Fin a"
| "num_rem x y = NaN"

text \<open>Truthiness of a number, and \<^verbatim>\<open>x || y\<close> on numbers.\<close>

fun truthy :: "number \<Rightarrow> bool" where
  "truthy (Fin a) = (a \<noteq> 0)"
| "truthy NaN = False"
| "truthy x = True"

definition num_or :: "number \<Rightarrow> number \<Rightarrow> number" where
  "num_or x y = (if truthy x then x else y)"

text \<open>\<^verbatim>\<open>Math.atan2(y, x)\<close> on finite arguments, in radians.\<close>

definition Math_atan2 :: "real \<Rightarrow> real \<Rightarrow> real" where
  "Math_atan2 y x =
     (if 0 < x then arctan (y / x)
      else if x < 0 then (if 0 \<le> y then arctan (y / x) + pi else arctan (y / x) - pi)
      else if 0 < y then pi / 2
      else if y < 0 then - (pi / 2)
      else 0)"

section \<open>JavaScript strings\<close>

text \<open>
  A string is a list of atoms: a character, or a number that a template literal or a
  concatenation has converted to text. The decimal digits of a converted number are not
  reproduced; the model keeps the number itself and the facts about its text that the
  program depends on: which characters it is made of, and that reading it back with
  \<^verbatim>\<open>parseFloat\<close> gives the number again. This is exact as long as a converted
  number is not next to a digit, sign, dot or exponent character or to another converted
  number; every string the program builds puts punctuation or letters around each number.
\<close>

datatype atom = Chr char | Nr number

type_synonym jsstr = "atom list"

definition lit :: "string \<Rightarrow> jsstr" where
  "lit s = map Chr s"

text \<open>
  Number-to-string conversion writes a finite value in plain decimal notation when it is
  zero or its magnitude is at least \<open>10\<^sup>-\<^sup>6\<close> and below \<open>10\<^sup>2\<^sup>1\<close>, and with
  an exponent otherwise.
\<close>

definition plain :: "real \<Rightarrow> bool" where
  "plain r = (r = 0 \<or> (1 / 10 ^ 6 \<le> \<bar>r\<bar> \<and> \<bar>r\<bar> < 10 ^ 21))"

definition is_digit :: "char \<Rightarrow> bool" where
  "is_digit c = (c \<in> set ''0123456789'')"

text \<open>The character classes \<^verbatim>\<open>[\d.]\<close> and \<^verbatim>\<open>[\d.-]\<close>.\<close>

fun cls_digit_dot :: "atom \<Rightarrow> bool" where
  "cls_digit_dot (Chr c) = (is_digit c \<or> c = CHR ''.'')"
| "cls_digit_dot (Nr (Fin r)) = (0 \<le> r \<and> plain r)"
| "cls_digit_dot (Nr x) = False"

fun cls_digit_dot_minus :: "atom \<Rightarrow> bool" where
  "cls_digit_dot_minus (Chr c) = (is_digit c \<or> c = CHR ''.'' \<or> c = CHR ''-'')"
| "cls_digit_dot_minus (Nr (Fin r)) = plain r"
| "cls_digit_dot_minus (Nr x) = False"

fun strip_prefix :: "'a list \<Rightarrow> 'a list \<Rightarrow> 'a list option" where
  "strip_prefix [] ys = Some ys"
| "strip_prefix (x # xs) [] = None"
| "strip_prefix (x # xs) (y # ys) = (if x = y then strip_prefix xs ys else None)"

text \<open>
  A regular expression of the shape \<^verbatim>\<open>pre([cls]+)suf\<close>, where the first character of
  \<open>suf\<close> is outside the class: at one position it matches when \<open>pre\<close> is followed by a
  non-empty longest run of class members and then \<open>suf\<close>; the group is that run.
  \<open>re_search\<close> is \<^verbatim>\<open>String.prototype.match\<close> without the global flag: the group of the
  leftmost match, or \<open>None\<close> for \<^verbatim>\<open>null\<close>.
\<close>

definition match_at :: "jsstr \<Rightarrow> (atom \<Rightarrow> bool) \<Rightarrow> jsstr \<Rightarrow> jsstr \<Rightarrow> jsstr option" where
  "match_at pre cls suf s =
     (case strip_prefix pre s of
        None \<Rightarrow> None
      | Some r \<Rightarrow>
          (if takeWhile cls r \<noteq> [] \<and> strip_prefix suf (dropWhile cls r) \<noteq> None
           then Some (takeWhile cls r) else None))"

fun re_search :: "jsstr \<Rightarrow> (atom \<Rightarrow> bool) \<Rightarrow> jsstr \<Rightarrow> jsstr \<Rightarrow> jsstr option" where
  "re_search pre cls suf [] = match_at pre cls suf []"
| "re_search pre cls suf (a # s) =
     (case match_at pre cls suf (a # s) of
        Some g \<Rightarrow> Some g
      | None \<Rightarrow> re_search pre cls suf s)"

text \<open>\<^verbatim>\<open>/scale\(([\d.]+)\)/\<close> and \<^verbatim>\<open>/rotate\(([\d.-]+)deg\)/\<close>.\<close>

definition scaleRe :: "jsstr \<Rightarrow> jsstr option" where
  "scaleRe t = re_search (lit ''scale('') cls_digit_dot (lit '')'') t"

definition rotateRe :: "jsstr \<Rightarrow> jsstr option" where
  "rotateRe t = re_search (lit ''rotate('') cls_digit_dot_minus (lit ''deg)'') t"

subsection \<open>parseFloat\<close>

definition digit_val :: "char \<Rightarrow> nat" where
  "digit_val c = of_char c - 48"

definition digits_val :: "string \<Rightarrow> nat" where
  "digits_val ds = foldl (\<lambda>a c. 10 * a + digit_val c) 0 ds"

text \<open>An optional sign: whether it is a minus, and the rest.\<close>

fun take_sign :: "string \<Rightarrow> bool \<times> string" where
  "take_sign [] = (False, [])"
| "take_sign (c # cs) =
     (if c = CHR ''-'' then (True, cs) else if c = CHR ''+'' then (False, cs) else (False, c # cs))"

text \<open>The exponent part after the mantissa, as a power of ten; 0 when there is none.\<close>

definition exponent_of :: "string \<Rightarrow> int" where
  "exponent_of r =
     (case r of
        [] \<Rightarrow> 0
      | c # t \<Rightarrow>
          (if c = CHR ''e'' \<or> c = CHR ''E'' then
             (let (eneg, t') = take_sign t; ds = takeWhile is_digit t'
              in if ds = [] then 0
                 else if eneg then - int (digits_val ds) else int (digits_val ds))
           else 0))"

definition scale10 :: "real \<Rightarrow> int \<Rightarrow> real" where
  "scale10 m e = (if 0 \<le> e then m * 10 ^ nat e else m / 10 ^ nat (- e))"

text \<open>
  The longest prefix that is a decimal literal (sign, \<^verbatim>\<open>Infinity\<close>, or digits with an
  optional fraction and exponent); NaN when there is none.
\<close>

definition parse_decimal :: "string \<Rightarrow> number" where
  "parse_decimal s =
     (let (neg, r0) = take_sign s in
      if strip_prefix ''Infinity'' r0 \<noteq> None then (if neg then NInf else PInf)
      else
        (let ip = takeWhile is_digit r0;
             r1 = dropWhile is_digit r0;
             fp = (case r1 of [] \<Rightarrow> [] | c # t \<Rightarrow> if c = CHR ''.'' then takeWhile is_digit t else []);
             r2 = (case r1 of [] \<Rightarrow> [] | c # t \<Rightarrow> if c = CHR ''.'' then dropWhile is_digit t else r1)
         in if ip = [] \<and> fp = [] then NaN
            else
              (let m = real (digits_val ip) + real (digits_val fp) / 10 ^ length fp;
                   v = scale10 m (exponent_of r2)
               in Fin (if neg then - v else v))))"

fun is_space :: "atom \<Rightarrow> bool" where
  "is_space (Chr c) = (c \<in> {CHR '' '', CHR 0x09, CHR 0x0A, CHR 0x0B, CHR 0x0C, CHR 0x0D})"
| "is_space (Nr x) = False"

fun leading_chars :: "jsstr \<Rightarrow> string" where
  "leading_chars (Chr c # s) = c # leading_chars s"
| "leading_chars s = []"

text \<open>
  \<^verbatim>\<open>parseFloat\<close>: leading white space is skipped; a converted number reads back as
  itself, whatever follows it; characters are parsed as a decimal literal.
\<close>

definition parseFloat :: "jsstr \<Rightarrow> number" where
  "parseFloat s =
     (case dropWhile is_space s of
        Nr n # r \<Rightarrow> n
      | r \<Rightarrow> parse_decimal (leading_chars r))"

section \<open>The page state\<close>

type_synonym ident = string

text \<open>The coordinates of a pointer event or of one touch point; both are finite.\<close>

record point =
  clientX :: real
  clientY :: real

text \<open>
  What \<^verbatim>\<open>getBoundingClientRect\<close> and the parent's scroll offsets return when a
  handler reads them; an input of the event.
\<close>

record layout =
  rect_top :: real
  rect_left :: real
  parent_top :: real
  parent_left :: real
  scroll_top :: real
  scroll_left :: real

text \<open>
  One draggable element: the inline style properties and the attribute the program
  writes, and the variables of its \<^verbatim>\<open>makeElementDraggable\<close> closure.
\<close>

record elem =
  style_position :: jsstr
  style_top :: jsstr
  style_left :: jsstr
  style_transform :: jsstr
  prop_scale :: jsstr
  prop_rotation :: jsstr
  data_dragging :: bool
  currentX :: number
  currentY :: number
  initialScale :: number
  initialRotation :: number
  scale :: number
  rotation :: number
  touchStartDistance :: number
  touchStartAngle :: number

text \<open>
  The globals. \<open>statusElement\<close> is \<open>None\<close> when the page has no status region, and its
  text otherwise. Each document handler property is \<open>None\<close> for \<^verbatim>\<open>null\<close>, or the
  element whose closure's function is registered.
\<close>

record state =
  selectedElement :: "ident option"
  statusElement :: "jsstr option"
  onpointermove :: "ident option"
  onpointerup :: "ident option"
  onwheel :: "ident option"
  oncontextmenu :: "ident option"
  elems :: "ident \<Rightarrow> elem"

datatype error = TypeError

text \<open>
  The argument of \<^verbatim>\<open>handlePointerDown\<close>: a pointer event, or a \<^verbatim>\<open>Touch\<close> object
  taken from \<^verbatim>\<open>e.touches\<close>, which has coordinates but no \<^verbatim>\<open>preventDefault\<close> method.
\<close>

datatype parg = PointerEv point | TouchObj point

definition upd_elem :: "ident \<Rightarrow> (elem \<Rightarrow> elem) \<Rightarrow> state \<Rightarrow> state" where
  "upd_elem el f st = st\<lparr>elems := (elems st)(el := f (elems st el))\<rparr>"

definition updateStatus :: "jsstr \<Rightarrow> state \<Rightarrow> state" where
  "updateStatus message st =
     (case statusElement st of
        None \<Rightarrow> st
      | Some old \<Rightarrow> st\<lparr>statusElement := Some message\<rparr>)"

subsection \<open>Initialisation\<close>

definition digit_of :: "nat \<Rightarrow> char" where
  "digit_of d = char_of (48 + d)"

fun nat_str :: "nat \<Rightarrow> string" where
  "nat_str n = (if n < 10 then [digit_of n] else nat_str (n div 10) @ [digit_of (n mod 10)])"

declare nat_str.simps [simp del]

definition draggableIds :: "ident list" where
  "draggableIds =
     map (\<lambda>i. ''plant'' @ nat_str (i + 1)) [0..<14] @
     map (\<lambda>i. ''animal'' @ nat_str (i + 1)) [0..<7]"

text \<open>The variables of a new closure, on an element with the inline style \<open>e\<close>.\<close>

definition makeElementDraggable :: "elem \<Rightarrow> elem" where
  "makeElementDraggable e =
     e\<lparr>currentX := Fin 0, currentY := Fin 0, initialScale := Fin 1, initialRotation := Fin 0,
       scale := Fin 1, rotation := Fin 0, touchStartDistance := Fin 0, touchStartAngle := Fin 0\<rparr>"

text \<open>The body of the start-up loop for an element that exists.\<close>

definition init_elem :: "elem \<Rightarrow> elem" where
  "init_elem e =
     (let e1 = makeElementDraggable e in
      if style_top e1 = [] \<or> style_left e1 = [] then
        e1\<lparr>style_position := lit ''absolute'', style_top := lit ''50%'',
           style_left := lit ''50%'', style_transform := lit ''translate(-50%, -50%)''\<rparr>
      else e1)"

text \<open>An element with no inline style and no attribute.\<close>

definition blank_elem :: elem where
  "blank_elem =
     \<lparr>style_position = [], style_top = [], style_left = [], style_transform = [],
      prop_scale = [], prop_rotation = [], data_dragging = False,
      currentX = Fin 0, currentY = Fin 0, initialScale = Fin 1, initialRotation = Fin 0,
      scale = Fin 1, rotation = Fin 0, touchStartDistance = Fin 0, touchStartAngle = Fin 0\<rparr>"

text \<open>
  The state after the script has run on a page whose elements carry the inline styles
  \<open>doc\<close> and whose status region, if any, shows \<open>status\<close>.
\<close>

definition init_state :: "(ident \<Rightarrow> elem) \<Rightarrow> jsstr option \<Rightarrow> state" where
  "init_state doc status =
     \<lparr>selectedElement = None, statusElement = status,
      onpointermove = None, onpointerup = None, onwheel = None, oncontextmenu = None,
      elems = (\<lambda>i. init_elem (doc i))\<rparr>"

subsection \<open>The closure of one element\<close>

definition getDistance :: "point \<Rightarrow> point \<Rightarrow> real" where
  "getDistance p1 p2 =
     (let dx = clientX p1 - clientX p2; dy = clientY p1 - clientY p2
      in sqrt (dx * dx + dy * dy))"

definition getAngle :: "point \<Rightarrow> point \<Rightarrow> real" where
  "getAngle p1 p2 =
     (let dx = clientX p2 - clientX p1; dy = clientY p2 - clientY p1
      in Math_atan2 dy dx * (180 / pi))"

text \<open>
  \<^verbatim>\<open>updateTransform\<close> assigns the custom properties and the transform text. What a
  later read of \<^verbatim>\<open>style.transform\<close> returns is the business of the style object, see
  \<open>chromium_store\<close>.
\<close>

definition updateTransform :: "elem \<Rightarrow> elem" where
  "updateTransform e =
     e\<lparr>prop_scale := [Nr (scale e)],
       prop_rotation := [Nr (rotation e)] @ lit ''deg'',
       style_transform :=
         lit ''translate(-50%, -50%) scale('' @ [Nr (scale e)] @
         lit '') rotate('' @ [Nr (rotation e)] @ lit ''deg)''\<rparr>"

text \<open>
  \<^verbatim>\<open>handlePointerDown\<close> starts with \<^verbatim>\<open>e.preventDefault()\<close>: with a \<^verbatim>\<open>Touch\<close> object
  that call raises a TypeError before anything is written.
\<close>

definition handlePointerDown :: "ident \<Rightarrow> parg \<Rightarrow> layout \<Rightarrow> state \<Rightarrow> error option \<times> state" where
  "handlePointerDown el arg lay st =
     (case arg of
        TouchObj p \<Rightarrow> (Some TypeError, st)
      | PointerEv p \<Rightarrow>
          (let e = elems st el;
               transform = style_transform e;
               e1 = e\<lparr>scale := (case scaleRe transform of
                                    Some g \<Rightarrow> parseFloat g | None \<Rightarrow> scale e),
                       rotation := (case rotateRe transform of
                                    Some g \<Rightarrow> parseFloat g | None \<Rightarrow> rotation e)\<rparr>;
               e2 = (if style_top e1 = [] \<or> style_top e1 = lit ''auto'' then
                       e1\<lparr>style_top :=
                            [Nr (Fin (rect_top lay - parent_top lay + scroll_top lay))] @ lit ''px'',
                          style_left :=
                            [Nr (Fin (rect_left lay - parent_left lay + scroll_left lay))] @ lit ''px''\<rparr>
                     else e1);
               e3 = e2\<lparr>currentX := Fin (clientX p), currentY := Fin (clientY p),
                        data_dragging := True\<rparr>
           in (None,
               st\<lparr>elems := (elems st)(el := e3),
                  onpointermove := Some el, onpointerup := Some el,
                  onwheel := Some el, oncontextmenu := Some el\<rparr>)))"

text \<open>
  \<^verbatim>\<open>handlePointerMove\<close> reads top and left with \<^verbatim>\<open>parseFloat\<close>, which drops the
  unit, and assigns both back in pixels; the assigned text is kept as it is here, and the
  browser's rounding of it is in \<open>chromium_store\<close>.
\<close>

definition handlePointerMove :: "ident \<Rightarrow> point \<Rightarrow> state \<Rightarrow> state" where
  "handlePointerMove el p st =
     (let e = elems st el;
          moveX = num_sub (currentX e) (Fin (clientX p));
          moveY = num_sub (currentY e) (Fin (clientY p));
          e1 = e\<lparr>currentX := Fin (clientX p), currentY := Fin (clientY p)\<rparr>;
          st1 = updateStatus
                  (lit ''Dragging '' @ lit el @ lit '' | X:'' @ [Nr (currentX e1)] @
                   lit '', Y:'' @ [Nr (currentY e1)]) st;
          currentTop = num_or (parseFloat (style_top e1)) (Fin 0);
          currentLeft = num_or (parseFloat (style_left e1)) (Fin 0);
          e2 = e1\<lparr>style_top := [Nr (num_sub currentTop moveY)] @ lit ''px'',
                   style_left := [Nr (num_sub currentLeft moveX)] @ lit ''px''\<rparr>
      in st1\<lparr>elems := (elems st1)(el := e2)\<rparr>)"

definition handleWheel :: "ident \<Rightarrow> ident \<Rightarrow> real \<Rightarrow> state \<Rightarrow> state" where
  "handleWheel el target deltaY st =
     (if target = el then
        upd_elem el
          (\<lambda>e. updateTransform
                 (e\<lparr>scale :=
                      Math_max (Fin 0.3)
                        (Math_min (Fin 3)
                           (num_add (scale e) (if 0 < deltaY then Fin (- 0.05) else Fin 0.05)))\<rparr>))
          st
      else st)"

definition handleRightClick :: "ident \<Rightarrow> ident \<Rightarrow> state \<Rightarrow> state" where
  "handleRightClick el target st =
     (if target = el then
        upd_elem el
          (\<lambda>e. updateTransform
                 (e\<lparr>rotation := num_rem (num_add (rotation e) (Fin 15)) (Fin 360)\<rparr>))
          st
      else st)"

definition handlePointerUp :: "ident \<Rightarrow> state \<Rightarrow> state" where
  "handlePointerUp el st =
     (updateStatus (lit ''Drag a plant or animal to see coordinates.'')
        (upd_elem el (\<lambda>e. e\<lparr>data_dragging := False\<rparr>) st))
       \<lparr>onpointermove := None, onpointerup := None, onwheel := None, oncontextmenu := None\<rparr>"

text \<open>The three touch listeners and the \<^verbatim>\<open>onpointerdown\<close> property of the element.\<close>

definition touchstart :: "ident \<Rightarrow> point list \<Rightarrow> layout \<Rightarrow> state \<Rightarrow> error option \<times> state" where
  "touchstart el touches lay st =
     (case touches of
        [t] \<Rightarrow> handlePointerDown el (TouchObj t) lay (st\<lparr>selectedElement := Some el\<rparr>)
      | [t1, t2] \<Rightarrow>
          (None,
           upd_elem el
             (\<lambda>e. e\<lparr>touchStartDistance := Fin (getDistance t1 t2),
                    touchStartAngle := Fin (getAngle t1 t2),
                    initialScale := scale e,
                    initialRotation := rotation e\<rparr>)
             (st\<lparr>selectedElement := Some el\<rparr>))
      | _ \<Rightarrow> (None, st))"

definition touchmove :: "ident \<Rightarrow> point list \<Rightarrow> state \<Rightarrow> state" where
  "touchmove el touches st =
     (case touches of
        [t] \<Rightarrow> handlePointerMove el t st
      | [t1, t2] \<Rightarrow>
          upd_elem el
            (\<lambda>e. let currentDistance = Fin (getDistance t1 t2);
                      currentAngle = Fin (getAngle t1 t2);
                      distanceRatio = num_div currentDistance (touchStartDistance e);
                      angleDifference = num_sub currentAngle (touchStartAngle e)
                  in updateTransform
                       (e\<lparr>scale := Math_max (Fin 0.3)
                                     (Math_min (Fin 3) (num_mul (initialScale e) distanceRatio)),
                          rotation := num_rem
                                        (num_add (num_add (initialRotation e) angleDifference)
                                           (Fin 360))
                                        (Fin 360)\<rparr>))
            st
      | _ \<Rightarrow> st)"

definition touchend :: "ident \<Rightarrow> point list \<Rightarrow> state \<Rightarrow> state" where
  "touchend el touches st =
     (let st1 = (if length touches < 2 then
                   upd_elem el (\<lambda>e. e\<lparr>touchStartDistance := Fin 0, touchStartAngle := Fin 0\<rparr>) st
                 else st)
      in if length touches = 0 then handlePointerUp el st1 else st1)"

definition onpointerdown :: "ident \<Rightarrow> point \<Rightarrow> layout \<Rightarrow> state \<Rightarrow> error option \<times> state" where
  "onpointerdown el p lay st =
     handlePointerDown el (PointerEv p) lay (st\<lparr>selectedElement := Some el\<rparr>)"

subsection \<open>Keyboard controls\<close>

definition keydown :: "string \<Rightarrow> state \<Rightarrow> state" where
  "keydown key st =
     (case selectedElement st of
        None \<Rightarrow> st
      | Some sel \<Rightarrow>
          (let transform = style_transform (elems st sel);
               scale0 = (case scaleRe transform of Some g \<Rightarrow> parseFloat g | None \<Rightarrow> Fin 1);
               rotation0 = (case rotateRe transform of Some g \<Rightarrow> parseFloat g | None \<Rightarrow> Fin 0);
               write = (\<lambda>s r. upd_elem sel
                          (\<lambda>e. e\<lparr>style_transform :=
                                   lit ''scale('' @ [Nr s] @ lit '') rotate('' @ [Nr r] @ lit ''deg)''\<rparr>)
                          st)
           in if key = ''ArrowUp'' then write (Math_min (Fin 3) (num_add scale0 (Fin 0.1))) rotation0
              else if key = ''ArrowDown'' then
                write (Math_max (Fin 0.3) (num_sub scale0 (Fin 0.1))) rotation0
              else if key = ''ArrowLeft'' then
                write scale0 (num_rem (num_add (num_sub rotation0 (Fin 15)) (Fin 360)) (Fin 360))
              else if key = ''ArrowRight'' then
                write scale0 (num_rem (num_add rotation0 (Fin 15)) (Fin 360))
              else st))"

subsection \<open>Events\<close>

text \<open>
  The events the page receives. A listener on an element exists only for the identifiers
  of \<open>draggableIds\<close>; a document-level pointer, wheel or context-menu event runs the
  function stored in the corresponding handler property, if any.
\<close>

datatype event =
    KeyDown string
  | TouchStart ident "point list" layout
  | TouchMove ident "point list"
  | TouchEnd ident "point list"
  | PointerDown ident point layout
  | PointerMove point
  | PointerUp
  | Wheel ident real
  | ContextMenu ident

fun dispatch :: "event \<Rightarrow> state \<Rightarrow> error option \<times> state" where
  "dispatch (KeyDown key) st = (None, keydown key st)"
| "dispatch (TouchStart el touches lay) st =
     (if el \<in> set draggableIds then touchstart el touches lay st else (None, st))"
| "dispatch (TouchMove el touches) st =
     (if el \<in> set draggableIds then (None, touchmove el touches st) else (None, st))"
| "dispatch (TouchEnd el touches) st =
     (if el \<in> set draggableIds then (None, touchend el touches st) else (None, st))"
| "dispatch (PointerDown el p lay) st =
     (if el \<in> set draggableIds then onpointerdown el p lay st else (None, st))"
| "dispatch (PointerMove p) st =
     (case onpointermove st of None \<Rightarrow> (None, st) | Some el \<Rightarrow> (None, handlePointerMove el p st))"
| "dispatch PointerUp st =
     (case onpointerup st of None \<Rightarrow> (None, st) | Some el \<Rightarrow> (None, handlePointerUp el st))"
| "dispatch (Wheel target deltaY) st =
     (case onwheel st of None \<Rightarrow> (None, st) | Some el \<Rightarrow> (None, handleWheel el target deltaY st))"
| "dispatch (ContextMenu target) st =
     (case oncontextmenu st of None \<Rightarrow> (None, st) | Some el \<Rightarrow> (None, handleRightClick el target st))"

text \<open>
  An error raised by a listener is reported and does not stop the page: the next event
  is handled in the state the listener left.
\<close>

definition step :: "state \<Rightarrow> event \<Rightarrow> state" where
  "step st ev = snd (dispatch ev st)"

definition run :: "event list \<Rightarrow> state \<Rightarrow> state" where
  "run evs st = foldl step st evs"

section \<open>The style object of the browser\<close>

text \<open>
  The handlers assign a text to \<^verbatim>\<open>style.transform\<close>, \<^verbatim>\<open>style.top\<close> and
  \<^verbatim>\<open>style.left\<close>; \<open>step\<close> keeps that text as it was assigned. A browser parses the
  assigned text as CSS and a later read returns its own serialisation. This section models
  the style object of Chromium: a number is kept with six significant digits, and a text
  with a number that is not finite is not valid CSS, so the assignment is dropped and the
  old value stays; assigning the text that is already stored changes nothing. No handler
  reads a style property after writing it, so the store is applied to the three
  properties after each event.
\<close>

text \<open>A number rounded to six significant digits.\<close>

definition sig6 :: "real \<Rightarrow> real" where
  "sig6 x =
     (if x = 0 then 0
      else of_int (round (x * 10 powr (5 - of_int \<lfloor>log 10 \<bar>x\<bar>\<rfloor>)))
           / 10 powr (5 - of_int \<lfloor>log 10 \<bar>x\<bar>\<rfloor>))"

fun css_atom :: "atom \<Rightarrow> atom" where
  "css_atom (Nr (Fin r)) = Nr (Fin (sig6 r))"
| "css_atom a = a"

fun css_valid :: "atom \<Rightarrow> bool" where
  "css_valid (Nr (Fin r)) = True"
| "css_valid (Nr x) = False"
| "css_valid (Chr c) = True"

definition chromium_store :: "jsstr \<Rightarrow> jsstr \<Rightarrow> jsstr" where
  "chromium_store old new =
     (if new = old then old
      else if list_all css_valid new then map css_atom new
      else old)"

definition chromium_elem :: "elem \<Rightarrow> elem \<Rightarrow> elem" where
  "chromium_elem old new =
     new\<lparr>style_top := chromium_store (style_top old) (style_top new),
         style_left := chromium_store (style_left old) (style_left new),
         style_transform := chromium_store (style_transform old) (style_transform new)\<rparr>"

definition chromium_step :: "state \<Rightarrow> event \<Rightarrow> state" where
  "chromium_step st ev =
     (let st' = step st ev
      in st'\<lparr>elems := (\<lambda>i. chromium_elem (elems st i) (elems st' i))\<rparr>)"

definition chromium_run :: "event list \<Rightarrow> state \<Rightarrow> state" where
  "chromium_run evs st = foldl chromium_step st evs"

section \<open>Pages and ranges used in the statements\<close>

text \<open>A page whose elements have no inline style, with an empty status region.\<close>

definition fresh_page :: state where
  "fresh_page = init_state (\<lambda>i. blank_elem) (Some [])"

text \<open>A page whose elements are placed in pixels by their inline style.\<close>

definition placed_page :: state where
  "placed_page =
     init_state (\<lambda>i. blank_elem\<lparr>style_top := lit ''200px'', style_left := lit ''300px''\<rparr>)
       (Some [])"

definition origin_layout :: layout where
  "origin_layout =
     \<lparr>rect_top = 0, rect_left = 0, parent_top = 0, parent_left = 0,
      scroll_top = 0, scroll_left = 0\<rparr>"

text \<open>A scale within the clamp \<open>[0.3, 3]\<close>; a rotation within \<open>[0, 360)\<close>.\<close>

definition in_clamp :: "number \<Rightarrow> bool" where
  "in_clamp x = (case x of Fin s \<Rightarrow> 3 / 10 \<le> s \<and> s \<le> 3 | _ \<Rightarrow> False)"

definition in_turn :: "number \<Rightarrow> bool" where
  "in_turn x = (case x of Fin r \<Rightarrow> 0 \<le> r \<and> r < 360 | _ \<Rightarrow> False)"

text \<open>
  A page whose elements are placed in pixels and carry the inline transform \<open>t\<close>, and the
  same page after a pointer-down has selected \<open>plant1\<close>.
\<close>

definition styled_page :: "jsstr \<Rightarrow> state" where
  "styled_page t =
     init_state (\<lambda>i. blank_elem\<lparr>style_top := lit ''200px'', style_left := lit ''300px'',
                                  style_transform := t\<rparr>) (Some [])"

definition selected_page :: "jsstr \<Rightarrow> state" where
  "selected_page t =
     step (styled_page t) (PointerDown ''plant1'' \<lparr>clientX = 100, clientY = 100\<rparr> origin_layout)"

text \<open>
  The scale and the rotation that the two regular expressions and \<^verbatim>\<open>parseFloat\<close> read
  from a transform string, if the expression matches; and the text the keyboard handler
  writes for a scale and a rotation.
\<close>

definition scale_in :: "jsstr \<Rightarrow> number option" where
  "scale_in t = (case scaleRe t of None \<Rightarrow> None | Some g \<Rightarrow> Some (parseFloat g))"

definition rotation_in :: "jsstr \<Rightarrow> number option" where
  "rotation_in t = (case rotateRe t of None \<Rightarrow> None | Some g \<Rightarrow> Some (parseFloat g))"

definition keyboard_text :: "number \<Rightarrow> number \<Rightarrow> jsstr" where
  "keyboard_text s r = lit ''scale('' @ [Nr s] @ lit '') rotate('' @ [Nr r] @ lit ''deg)''"


text \<open>
  Whether a drag is in progress after an event, given whether one was before it: a drag
  starts with a pointer-down on a draggable element and ends with a pointer-up, or with
  a touch end on a draggable element that leaves no touch. \<open>dragging\<close> follows this along
  the events of a run from the start of the page. \<open>handlers\<close> are the four handler
  properties of the document.
\<close>

fun drag_after :: "bool \<Rightarrow> event \<Rightarrow> bool" where
  "drag_after b (PointerDown el p lay) = (b \<or> el \<in> set draggableIds)"
| "drag_after b PointerUp = False"
| "drag_after b (TouchEnd el touches) = (b \<and> \<not> (el \<in> set draggableIds \<and> touches = []))"
| "drag_after b ev = b"

definition dragging :: "event list \<Rightarrow> bool" where
  "dragging evs = foldl drag_after False evs"

definition handlers :: "state \<Rightarrow> ident option \<times> ident option \<times> ident option \<times> ident option" where
  "handlers st = (onpointermove st, onpointerup st, onwheel st, oncontextmenu st)"

text \<open>
  The invariant of one element for the rotation: the stored rotation and the baseline of
  a twist are within \<open>[0, 360)\<close>, the stored start angle is within \<open>(-180, 180]\<close>, and a
  rotation that can be read from the transform string is within \<open>[0, 360)\<close>.
\<close>

definition half_turn :: "number \<Rightarrow> bool" where
  "half_turn x = (case x of Fin a \<Rightarrow> - 180 < a \<and> a \<le> 180 | _ \<Rightarrow> False)"

definition rot_text_ok :: "jsstr \<Rightarrow> bool" where
  "rot_text_ok t = (case rotation_in t of None \<Rightarrow> True | Some r \<Rightarrow> in_turn r)"

definition rot_ok :: "elem \<Rightarrow> bool" where
  "rot_ok e = (in_turn (rotation e) \<and> in_turn (initialRotation e)
               \<and> half_turn (touchStartAngle e) \<and> rot_text_ok (style_transform e))"

text \<open>
  The invariant of one element for the scale: the stored scale and the baseline of a pinch
  are within the clamp, the stored start distance is finite and not negative, and a scale
  that can be read from the transform string is within the clamp. \<open>coincident\<close> holds
  for a two-touch move whose two touch points are at the same place.
\<close>

definition nonneg_fin :: "number \<Rightarrow> bool" where
  "nonneg_fin x = (case x of Fin d \<Rightarrow> 0 \<le> d | _ \<Rightarrow> False)"

definition scale_text_ok :: "jsstr \<Rightarrow> bool" where
  "scale_text_ok t = (case scale_in t of None \<Rightarrow> True | Some s \<Rightarrow> in_clamp s)"

definition scale_ok :: "elem \<Rightarrow> bool" where
  "scale_ok e = (in_clamp (scale e) \<and> in_clamp (initialScale e)
                 \<and> nonneg_fin (touchStartDistance e) \<and> scale_text_ok (style_transform e))"

fun coincident :: "event \<Rightarrow> bool" where
  "coincident (TouchMove el [t1, t2]) = (getDistance t1 t2 = 0)"
| "coincident ev = False"

text \<open>
  During a drag of \<open>el\<close>: the move and up handlers are those of \<open>el\<close>, the last pointer
  position is \<open>p\<close>, and the position is \<open>T\<close> and \<open>L\<close> pixels.
\<close>

definition tracking :: "state \<Rightarrow> ident \<Rightarrow> real \<Rightarrow> real \<Rightarrow> point \<Rightarrow> bool" where
  "tracking st el T L p =
     (onpointermove st = Some el \<and> onpointerup st = Some el
      \<and> currentX (elems st el) = Fin (clientX p) \<and> currentY (elems st el) = Fin (clientY p)
      \<and> style_top (elems st el) = [Nr (Fin T)] @ lit ''px''
      \<and> style_left (elems st el) = [Nr (Fin L)] @ lit ''px'')"

text \<open>The text \<^verbatim>\<open>updateTransform\<close> writes for a scale and a rotation.\<close>

definition transform_text :: "number \<Rightarrow> number \<Rightarrow> jsstr" where
  "transform_text s r =
     lit ''translate(-50%, -50%) scale('' @ [Nr s] @ lit '') rotate('' @ [Nr r] @ lit ''deg)''"

text \<open>
  The text of a string in which every converted number is a whole number below
  \<open>10\<^sup>2\<^sup>1\<close> in magnitude, NaN or an infinity: number-to-string conversion writes
  such a whole number as its decimal digits, with a minus sign if it is negative. For
  other numbers the text is not modelled and \<open>render\<close> gives \<open>None\<close>.
\<close>

definition int_text :: "int \<Rightarrow> string" where
  "int_text i = (if i < 0 then ''-'' @ nat_str (nat (- i)) else nat_str (nat i))"

fun number_text :: "number \<Rightarrow> string option" where
  "number_text (Fin r) =
     (if r = of_int \<lfloor>r\<rfloor> \<and> \<bar>r\<bar> < 10 ^ 21 then Some (int_text \<lfloor>r\<rfloor>) else None)"
| "number_text NaN = Some ''NaN''"
| "number_text PInf = Some ''Infinity''"
| "number_text NInf = Some ''-Infinity''"

fun render :: "jsstr \<Rightarrow> string option" where
  "render [] = Some []"
| "render (Chr c # s) = (case render s of None \<Rightarrow> None | Some t \<Rightarrow> Some (c # t))"
| "render (Nr n # s) =
     (case number_text n of
        None \<Rightarrow> None
      | Some u \<Rightarrow> (case render s of None \<Rightarrow> None | Some t \<Rightarrow> Some (u @ t)))"

text \<open>
  A length of \<open>v\<close> pixels: the text ends in \<^verbatim>\<open>px\<close> and \<^verbatim>\<open>parseFloat\<close> reads \<open>v\<close>
  from it. The text a drag handler writes for the number \<open>v\<close> is one, and so is
  \<^verbatim>\<open>200px\<close> in the inline style of a page; \<^verbatim>\<open>50%\<close> is not.
\<close>

definition px_length :: "jsstr \<Rightarrow> real \<Rightarrow> bool" where
  "px_length s v =
     (parseFloat s = Fin v \<and> 2 \<le> length s \<and> drop (length s - 2) s = lit ''px'')"



section \<open>Evaluation\<close>

lemma plant1_draggable: "''plant1'' \<in> set draggableIds"
  by code_simp

lemmas model_defs =
  run_def step_def touchstart_def touchmove_def touchend_def onpointerdown_def
  handlePointerDown_def handlePointerMove_def handlePointerUp_def handleWheel_def
  handleRightClick_def keydown_def updateTransform_def updateStatus_def upd_elem_def
  getDistance_def getAngle_def Math_min_def Math_max_def num_sub_def num_or_def Let_def

lemmas page_defs =
  fresh_page_def placed_page_def origin_layout_def init_state_def init_elem_def
  makeElementDraggable_def blank_elem_def

lemmas string_defs =
  scaleRe_def rotateRe_def match_at_def lit_def is_digit_def parseFloat_def parse_decimal_def
  digits_val_def digit_val_def scale10_def exponent_of_def plain_def

section \<open>Arithmetic of the handlers\<close>

lemma Math_min_Fin: "Math_min (Fin a) (Fin b) = Fin (min a b)"
  by (simp add: Math_min_def min_def)

lemma Math_max_Fin: "Math_max (Fin a) (Fin b) = Fin (max a b)"
  by (simp add: Math_max_def max_def)

lemma num_rem_nonneg:
  "0 \<le> a \<Longrightarrow> num_rem (Fin a) (Fin 360) = Fin (a - 360 * of_int \<lfloor>a / 360\<rfloor>)"
  by (simp add: trunc_def)

lemma floor_mod_range:
  fixes a :: real
  shows "0 \<le> a - 360 * of_int \<lfloor>a / 360\<rfloor> \<and> a - 360 * of_int \<lfloor>a / 360\<rfloor> < 360"
proof -
  have "of_int \<lfloor>a / 360\<rfloor> \<le> a / 360" by (rule of_int_floor_le)
  moreover have "a / 360 < of_int \<lfloor>a / 360\<rfloor> + 1" by linarith
  ultimately show ?thesis by (simp add: field_simps)
qed

lemma in_turn_rem:
  assumes "0 \<le> a"
  shows "in_turn (num_rem (Fin a) (Fin 360))"
proof -
  have e: "num_rem (Fin a) (Fin 360) = Fin (a - 360 * of_int \<lfloor>a / 360\<rfloor>)"
    using assms by (rule num_rem_nonneg)
  show ?thesis
    unfolding e in_turn_def using floor_mod_range [of a] by simp
qed

lemma Math_atan2_bounds: "- pi < Math_atan2 y x \<and> Math_atan2 y x \<le> pi"
proof -
  have b: "- (pi / 2) < arctan (y / x)" "arctan (y / x) < pi / 2"
    by (rule arctan_lbound, rule arctan_ubound)
  have p: "0 < pi" by (rule pi_gt_zero)
  show ?thesis
  proof (cases "0 < x")
    case True
    then show ?thesis using b p by (simp add: Math_atan2_def)
  next
    case False
    note nx = False
    show ?thesis
    proof (cases "x < 0")
      case True
      show ?thesis
      proof (cases "0 \<le> y")
        case True
        with \<open>x < 0\<close> have "y / x \<le> 0" by (simp add: divide_nonneg_neg)
        then have "arctan (y / x) \<le> 0" by (simp add: arctan_le_zero_iff)
        then show ?thesis using b p \<open>x < 0\<close> True by (simp add: Math_atan2_def)
      next
        case False
        with \<open>x < 0\<close> have "0 < y / x" by (simp add: divide_neg_neg)
        then have "0 < arctan (y / x)" by (simp add: zero_less_arctan_iff)
        then show ?thesis using b p \<open>x < 0\<close> False by (simp add: Math_atan2_def)
      qed
    next
      case False
      with nx have z: "x = 0" by simp
      show ?thesis
        unfolding Math_atan2_def using z p by (auto; linarith)
    qed
  qed
qed

lemma getAngle_bounds: "- 180 < getAngle p1 p2 \<and> getAngle p1 p2 \<le> 180"
proof -
  define a where "a = Math_atan2 (clientY p2 - clientY p1) (clientX p2 - clientX p1)"
  have g: "getAngle p1 p2 = a * (180 / pi)" by (simp add: getAngle_def a_def Let_def)
  have b: "- pi < a" "a \<le> pi" using Math_atan2_bounds [of "clientY p2 - clientY p1" "clientX p2 - clientX p1"]
    by (simp_all add: a_def)
  have p: "0 < pi" by (rule pi_gt_zero)
  have "- pi * (180 / pi) < a * (180 / pi)" using b(1) p by (intro mult_strict_right_mono) simp_all
  moreover have "a * (180 / pi) \<le> pi * (180 / pi)" using b(2) p by (intro mult_right_mono) simp_all
  ultimately show ?thesis using p by (simp add: g)
qed

lemma getDistance_nonneg: "0 \<le> getDistance p1 p2"
  by (simp add: getDistance_def Let_def)






section \<open>Scale stays within the clamp (C1)\<close>

text \<open>
  C1: after every scale adjustment by the wheel, the keyboard or a two-finger pinch,
  starting from scale 1, the stored scale is within \<open>[0.3, 3]\<close>.

  The pinch path breaks this. On a fresh page, a move with two touch points at the same
  coordinates, with no two-finger start before it, divides the current distance 0 by the
  stored start distance 0; the ratio is NaN, \<^verbatim>\<open>Math.min\<close> and \<^verbatim>\<open>Math.max\<close> pass NaN
  through, and the stored scale is NaN, which is not in the range.
\<close>

theorem C1_pinch_scale_leaves_clamp:
  "scale (elems (run [TouchMove ''plant1''
                       [\<lparr>clientX = 10, clientY = 10\<rparr>, \<lparr>clientX = 10, clientY = 10\<rparr>]]
                   fresh_page) ''plant1'') = NaN
   \<and> \<not> in_clamp (scale (elems (run [TouchMove ''plant1''
                       [\<lparr>clientX = 10, clientY = 10\<rparr>, \<lparr>clientX = 10, clientY = 10\<rparr>]]
                   fresh_page) ''plant1''))"
  by (simp add: model_defs page_defs plant1_draggable in_clamp_def)

text \<open>
  The two-touch move with both touches at one point is the only way out of the clamp:
  along any events without such a move, the stored scale of every element and the scale
  in its transform string stay within \<open>[0.3, 3]\<close>.
\<close>

lemma scale_in_full:
  "scale_in (lit ''translate(-50%, -50%) scale('' @ [Nr s] @ lit '') rotate('' @ [Nr r] @ lit ''deg)'')
   = (if cls_digit_dot (Nr s) then Some s else None)"
  by (simp add: scale_in_def scaleRe_def lit_def match_at_def is_digit_def parseFloat_def)

lemma scale_in_keyboard:
  "scale_in (lit ''scale('' @ [Nr s] @ lit '') rotate('' @ [Nr r] @ lit ''deg)'')
   = (if cls_digit_dot (Nr s) then Some s else None)"
  by (simp add: scale_in_def scaleRe_def lit_def match_at_def is_digit_def parseFloat_def)

lemma scale_text_ok_full:
  "in_clamp s \<Longrightarrow>
   scale_text_ok (lit ''translate(-50%, -50%) scale('' @ [Nr s] @ lit '') rotate('' @ [Nr r] @ lit ''deg)'')"
  unfolding scale_text_ok_def scale_in_full by simp

lemma scale_text_ok_keyboard:
  "in_clamp s \<Longrightarrow> scale_text_ok (lit ''scale('' @ [Nr s] @ lit '') rotate('' @ [Nr r] @ lit ''deg)'')"
  unfolding scale_text_ok_def scale_in_keyboard by simp

lemma scale_text_ok_centre: "scale_text_ok (lit ''translate(-50%, -50%)'')"
  by (simp add: scale_text_ok_def scale_in_def string_defs)

lemma in_clamp_1: "in_clamp (Fin 1)"
  by (simp add: in_clamp_def)

lemma in_clamp_clamp:
  assumes "x \<noteq> NaN"
  shows "in_clamp (Math_max (Fin (3 / 10)) (Math_min (Fin 3) x))"
  using assms by (cases x) (simp_all add: in_clamp_def Math_min_def Math_max_def)

lemma in_clamp_wheel:
  assumes "in_clamp s"
  shows "in_clamp (Math_max (Fin (3 / 10)) (Math_min (Fin 3) (num_add s (Fin d))))"
proof -
  from assms obtain r where "s = Fin r" by (cases s) (simp_all add: in_clamp_def)
  then have "num_add s (Fin d) \<noteq> NaN" by simp
  then show ?thesis by (rule in_clamp_clamp)
qed

lemma in_clamp_pinch:
  assumes "in_clamp s" and "nonneg_fin d" and "c \<noteq> 0" and "0 \<le> c"
  shows "in_clamp (Math_max (Fin (3 / 10)) (Math_min (Fin 3) (num_mul s (num_div (Fin c) d))))"
proof -
  from assms(1) obtain r where s: "s = Fin r" and r: "0 < r"
    by (cases s) (simp_all add: in_clamp_def)
  from assms(2) obtain e where d: "d = Fin e"
    by (cases d) (simp_all add: nonneg_fin_def)
  have "num_mul s (num_div (Fin c) d) \<noteq> NaN"
    using r assms(3,4) by (simp add: s d)
  then show ?thesis by (rule in_clamp_clamp)
qed

lemma in_clamp_up:
  assumes "in_clamp s"
  shows "in_clamp (Math_min (Fin 3) (num_add s (Fin (1 / 10))))"
  using assms by (cases s) (simp_all add: in_clamp_def Math_min_def)

lemma in_clamp_down:
  assumes "in_clamp s"
  shows "in_clamp (Math_max (Fin (3 / 10)) (num_sub s (Fin (1 / 10))))"
  using assms by (cases s) (simp_all add: in_clamp_def Math_max_def num_sub_def)

lemma nonneg_fin_getDistance: "nonneg_fin (Fin (getDistance p1 p2))"
  using getDistance_nonneg [of p1 p2] by (simp add: nonneg_fin_def)

lemma scale_ok_updateTransform:
  assumes "in_clamp (scale e)" and "in_clamp (initialScale e)"
    and "nonneg_fin (touchStartDistance e)"
  shows "scale_ok (updateTransform e)"
proof -
  have t: "style_transform (updateTransform e)
           = lit ''translate(-50%, -50%) scale('' @ [Nr (scale e)] @
             lit '') rotate('' @ [Nr (rotation e)] @ lit ''deg)''"
    by (simp add: updateTransform_def)
  have "scale_text_ok (style_transform (updateTransform e))"
    unfolding t using assms(1) by (rule scale_text_ok_full)
  then show ?thesis
    using assms by (simp add: scale_ok_def updateTransform_def)
qed

lemma scale_ok_keyboard:
  assumes "scale_ok e" and "in_clamp s"
  shows "scale_ok (e\<lparr>style_transform :=
                    lit ''scale('' @ [Nr s] @ lit '') rotate('' @ [Nr r] @ lit ''deg)''\<rparr>)"
  using assms scale_text_ok_keyboard [OF assms(2), of r]
  by (simp add: scale_ok_def)

lemma scale_ok_init_elem:
  assumes "scale_text_ok (style_transform e)"
  shows "scale_ok (init_elem e)"
  using assms scale_text_ok_centre
  by (simp add: scale_ok_def init_elem_def makeElementDraggable_def Let_def in_clamp_1
      nonneg_fin_def)

lemma scale_ok_step:
  assumes "\<forall>i. scale_ok (elems st i)" and "\<not> coincident ev"
  shows "scale_ok (elems (step st ev) i)"
proof (cases ev)
  case (KeyDown key)
  show ?thesis
  proof (cases "selectedElement st")
    case None
    then show ?thesis using assms KeyDown by (simp add: step_def keydown_def)
  next
    case (Some sel)
    have ok: "scale_ok (elems st sel)" using assms by simp
    define s0 where "s0 = (case scaleRe (style_transform (elems st sel)) of
                             Some g \<Rightarrow> parseFloat g | None \<Rightarrow> Fin 1)"
    have s0: "in_clamp s0"
      using ok by (auto simp add: s0_def scale_ok_def scale_text_ok_def scale_in_def in_clamp_1
          split: option.splits)
    note k = scale_ok_keyboard [OF ok s0] scale_ok_keyboard [OF ok in_clamp_up [OF s0]]
      scale_ok_keyboard [OF ok in_clamp_down [OF s0]]
    show ?thesis
      using assms KeyDown Some k
      by (simp add: step_def keydown_def upd_elem_def Let_def s0_def [symmetric])
  qed
next
  case (TouchStart el touches lay)
  have ok: "scale_ok (elems st el)" using assms by simp
  show ?thesis
    using assms TouchStart ok
    by (auto simp add: step_def touchstart_def handlePointerDown_def upd_elem_def scale_ok_def
        nonneg_fin_getDistance split: list.splits)
next
  case (TouchMove el touches)
  have ok: "scale_ok (elems st el)" using assms by simp
  show ?thesis
  proof (cases touches)
    case Nil
    then show ?thesis using assms TouchMove by (simp add: step_def touchmove_def)
  next
    case (Cons t1 ts)
    note c1 = Cons
    show ?thesis
    proof (cases ts)
      case Nil
      then show ?thesis
        using assms TouchMove c1
        by (auto simp add: step_def touchmove_def handlePointerMove_def updateStatus_def Let_def
            scale_ok_def split: option.splits)
    next
      case (Cons t2 ts')
      note c2 = Cons
      show ?thesis
      proof (cases ts')
        case Nil
        have far: "getDistance t1 t2 \<noteq> 0"
          using assms(2) TouchMove c1 c2 Nil by simp
        have "scale_ok (updateTransform
                (elems st el\<lparr>scale := Math_max (Fin (3 / 10)) (Math_min (Fin 3)
                      (num_mul (initialScale (elems st el))
                         (num_div (Fin (getDistance t1 t2)) (touchStartDistance (elems st el))))),
                   rotation := ro\<rparr>))" for ro
          using ok far getDistance_nonneg [of t1 t2]
          by (intro scale_ok_updateTransform) (simp_all add: scale_ok_def in_clamp_pinch)
        then show ?thesis
          using assms TouchMove c1 c2 Nil
          by (simp add: step_def touchmove_def upd_elem_def Let_def)
      next
        case (Cons t3 ts'')
        then show ?thesis using assms TouchMove c1 c2 by (simp add: step_def touchmove_def)
      qed
    qed
  qed
next
  case (TouchEnd el touches)
  have ok: "scale_ok (elems st el)" using assms by simp
  show ?thesis
    using assms TouchEnd ok
    by (auto simp add: step_def touchend_def handlePointerUp_def updateStatus_def upd_elem_def
        Let_def scale_ok_def nonneg_fin_def split: option.splits)
next
  case (PointerDown el p lay)
  have ok: "scale_ok (elems st el)" using assms by simp
  show ?thesis
    using assms PointerDown ok
    by (auto simp add: step_def onpointerdown_def handlePointerDown_def Let_def scale_ok_def
        scale_text_ok_def scale_in_def split: option.splits)
next
  case (PointerMove p)
  show ?thesis
    using assms PointerMove
    by (auto simp add: step_def handlePointerMove_def updateStatus_def Let_def scale_ok_def
        split: option.splits)
next
  case PointerUp
  show ?thesis
    using assms PointerUp
    by (auto simp add: step_def handlePointerUp_def updateStatus_def upd_elem_def scale_ok_def
        split: option.splits)
next
  case (Wheel target deltaY)
  show ?thesis
  proof (cases "onwheel st")
    case None
    then show ?thesis using assms Wheel by (simp add: step_def)
  next
    case (Some el)
    have ok: "scale_ok (elems st el)" using assms by simp
    have "scale_ok (updateTransform
            (elems st el\<lparr>scale := Math_max (Fin (3 / 10)) (Math_min (Fin 3)
                (num_add (scale (elems st el)) (Fin d)))\<rparr>))" for d
      using ok by (intro scale_ok_updateTransform) (simp_all add: scale_ok_def in_clamp_wheel)
    then show ?thesis
      using assms Wheel Some by (simp add: step_def handleWheel_def upd_elem_def)
  qed
next
  case (ContextMenu target)
  show ?thesis
  proof (cases "oncontextmenu st")
    case None
    then show ?thesis using assms ContextMenu by (simp add: step_def)
  next
    case (Some el)
    have ok: "scale_ok (elems st el)" using assms by simp
    have "scale_ok (updateTransform (elems st el\<lparr>rotation := ro\<rparr>))" for ro
      using ok by (intro scale_ok_updateTransform) (simp_all add: scale_ok_def)
    then show ?thesis
      using assms ContextMenu Some by (simp add: step_def handleRightClick_def upd_elem_def)
  qed
qed

lemma scale_ok_run:
  assumes "\<forall>i. scale_ok (elems st i)" and "\<forall>ev \<in> set evs. \<not> coincident ev"
  shows "\<forall>i. scale_ok (elems (run evs st) i)"
  using assms(2)
proof (induction evs rule: rev_induct)
  case Nil
  then show ?case using assms(1) by (simp add: run_def)
next
  case (snoc ev evs)
  have r: "run (evs @ [ev]) st = step (run evs st) ev"
    by (simp add: run_def)
  have "\<forall>i. scale_ok (elems (run evs st) i)" using snoc by simp
  moreover have "\<not> coincident ev" using snoc.prems by simp
  ultimately show ?case unfolding r using scale_ok_step by blast
qed

lemma scale_within_clamp_unless_coincident:
  assumes "\<forall>i. scale_text_ok (style_transform (doc i))"
    and "\<forall>ev \<in> set evs. \<not> coincident ev"
  shows "in_clamp (scale (elems (run evs (init_state doc status)) el))
       \<and> scale_text_ok (style_transform (elems (run evs (init_state doc status)) el))"
proof -
  have "\<forall>i. scale_ok (elems (init_state doc status) i)"
    using assms(1) by (simp add: init_state_def scale_ok_init_elem)
  then have "scale_ok (elems (run evs (init_state doc status)) el)"
    using scale_ok_run [OF _ assms(2)] by blast
  then show ?thesis by (simp add: scale_ok_def)
qed

section \<open>The composed transform (C2)\<close>

text \<open>
  C2: every path that changes scale or rotation, the keyboard arrows included, writes the
  transform as translate, then scale, then rotate.

  The keyboard path does not. After a pointer-down on \<open>plant1\<close> and one wheel step up the
  transform is \<^verbatim>\<open>translate(-50%, -50%) scale(1.05) rotate(0deg)\<close>; the ArrowUp key then
  writes \<^verbatim>\<open>scale(1.15) rotate(0deg)\<close>, which does not start with the translate component.
\<close>

theorem C2_keyboard_drops_translate:
  "style_transform
     (elems (run [PointerDown ''plant1'' \<lparr>clientX = 100, clientY = 100\<rparr> origin_layout,
                  Wheel ''plant1'' (- 1)] fresh_page) ''plant1'')
   = lit ''translate(-50%, -50%) scale('' @ [Nr (Fin (105 / 100))] @
     lit '') rotate('' @ [Nr (Fin 0)] @ lit ''deg)''
   \<and> style_transform
     (elems (run [PointerDown ''plant1'' \<lparr>clientX = 100, clientY = 100\<rparr> origin_layout,
                  Wheel ''plant1'' (- 1), KeyDown ''ArrowUp''] fresh_page) ''plant1'')
   = lit ''scale('' @ [Nr (Fin (115 / 100))] @ lit '') rotate('' @ [Nr (Fin 0)] @ lit ''deg)''
   \<and> strip_prefix (lit ''translate(-50%, -50%)'')
       (style_transform
          (elems (run [PointerDown ''plant1'' \<lparr>clientX = 100, clientY = 100\<rparr> origin_layout,
                       Wheel ''plant1'' (- 1), KeyDown ''ArrowUp''] fresh_page) ''plant1''))
     = None"
  by (simp add: model_defs page_defs plant1_draggable string_defs)

text \<open>
  The wheel, the right-click and the two-finger move, which end in
  \<^verbatim>\<open>updateTransform\<close>, do write the translate component first.
\<close>

lemma updateTransform_paths_translate_first:
  "(onwheel st = Some el \<longrightarrow>
      style_transform (elems (step st (Wheel el deltaY)) el)
      = transform_text (scale (elems (step st (Wheel el deltaY)) el))
          (rotation (elems (step st (Wheel el deltaY)) el)))
   \<and> (oncontextmenu st = Some el \<longrightarrow>
      style_transform (elems (step st (ContextMenu el)) el)
      = transform_text (scale (elems (step st (ContextMenu el)) el))
          (rotation (elems (step st (ContextMenu el)) el)))
   \<and> (el \<in> set draggableIds \<longrightarrow>
      style_transform (elems (step st (TouchMove el [t1, t2])) el)
      = transform_text (scale (elems (step st (TouchMove el [t1, t2])) el))
          (rotation (elems (step st (TouchMove el [t1, t2])) el)))"
  by (simp add: step_def handleWheel_def handleRightClick_def touchmove_def upd_elem_def
      updateTransform_def transform_text_def Let_def)

section \<open>Dragging (C3, C7)\<close>

lemma parseFloat_Fin_nonempty: "parseFloat s = Fin x \<Longrightarrow> s \<noteq> [] \<and> s \<noteq> lit ''auto''"
  by (auto simp: string_defs)

text \<open>
  C3 as stated: after a pointer-down at (100,100) on \<open>plant1\<close> and a pointer-move to
  (80,130), left has increased by 20, top has decreased by 30, and the status text reads
  \<^verbatim>\<open>Dragging plant1 | X:80, Y:130\<close>.

  On a page where \<open>plant1\<close> is at top 200px, left 300px this is false: the handler subtracts
  (previous - current) from the position, so the element follows the pointer; left becomes
  280 and top becomes 230.
\<close>

theorem C3_counterexample:
  "\<not> (parseFloat (style_left (elems (run [PointerDown ''plant1'' \<lparr>clientX = 100, clientY = 100\<rparr>
                                             origin_layout,
                                           PointerMove \<lparr>clientX = 80, clientY = 130\<rparr>]
                                        placed_page) ''plant1''))
        = num_add (parseFloat (style_left (elems placed_page ''plant1''))) (Fin 20)
      \<and> parseFloat (style_top (elems (run [PointerDown ''plant1'' \<lparr>clientX = 100, clientY = 100\<rparr>
                                             origin_layout,
                                           PointerMove \<lparr>clientX = 80, clientY = 130\<rparr>]
                                        placed_page) ''plant1''))
        = num_sub (parseFloat (style_top (elems placed_page ''plant1''))) (Fin 30))"
  by (simp add: model_defs page_defs plant1_draggable string_defs)

lemma render_lit: "render (lit s @ t) = (case render t of None \<Rightarrow> None | Some u \<Rightarrow> Some (s @ u))"
  by (induction s) (simp_all add: lit_def split: option.splits)

lemma text_80: "number_text (Fin 80) = Some ''80''" "number_text (Fin 130) = Some ''130''"
proof -
  have "nat_str 80 = ''80''" "nat_str 130 = ''130''" by code_simp+
  then show "number_text (Fin 80) = Some ''80''" "number_text (Fin 130) = Some ''130''"
    by (simp_all add: int_text_def)
qed

lemma status_text:
  "render (lit ''Dragging '' @ lit ''plant1'' @ lit '' | X:'' @ [Nr (Fin 80)] @ lit '', Y:'' @ [Nr (Fin 130)])
   = Some ''Dragging plant1 | X:80, Y:130''"
  using text_80 by (simp add: render_lit)

lemma fresh_position_not_px: "\<not> px_length (style_top (elems fresh_page ''plant1'')) v"
  by (simp add: px_length_def page_defs string_defs)

text \<open>
  C3 as amended: when the top and left of \<open>plant1\<close> are lengths in pixels, \<open>T\<close> and \<open>L\<close>,
  a pointer-down at (100,100) followed by a pointer-move to (80,130) leaves left at
  \<open>L - 20\<close> pixels and top at \<open>T + 30\<close> pixels, and a status region, if the page has one,
  reads \<^verbatim>\<open>Dragging plant1 | X:80, Y:130\<close>. A position in another unit, such as the 50%
  of the start-up code, is the subject of C7.
\<close>

theorem C3_drag_follows_pointer:
  assumes "px_length (style_top (elems st ''plant1'')) T"
    and "px_length (style_left (elems st ''plant1'')) L"
  shows "style_left (elems (run [PointerDown ''plant1'' \<lparr>clientX = 100, clientY = 100\<rparr> lay,
                               PointerMove \<lparr>clientX = 80, clientY = 130\<rparr>] st) ''plant1'')
           = [Nr (Fin (L - 20))] @ lit ''px''
       \<and> style_top (elems (run [PointerDown ''plant1'' \<lparr>clientX = 100, clientY = 100\<rparr> lay,
                               PointerMove \<lparr>clientX = 80, clientY = 130\<rparr>] st) ''plant1'')
           = [Nr (Fin (T + 30))] @ lit ''px''
       \<and> px_length (style_left (elems (run [PointerDown ''plant1'' \<lparr>clientX = 100, clientY = 100\<rparr> lay,
                               PointerMove \<lparr>clientX = 80, clientY = 130\<rparr>] st) ''plant1'')) (L - 20)
       \<and> px_length (style_top (elems (run [PointerDown ''plant1'' \<lparr>clientX = 100, clientY = 100\<rparr> lay,
                               PointerMove \<lparr>clientX = 80, clientY = 130\<rparr>] st) ''plant1'')) (T + 30)
       \<and> (statusElement st \<noteq> None \<longrightarrow>
            (case statusElement (run [PointerDown ''plant1'' \<lparr>clientX = 100, clientY = 100\<rparr> lay,
                               PointerMove \<lparr>clientX = 80, clientY = 130\<rparr>] st) of
               None \<Rightarrow> False
             | Some m \<Rightarrow> render m = Some ''Dragging plant1 | X:80, Y:130''))"
proof -
  have t: "parseFloat (style_top (elems st ''plant1'')) = Fin T"
    and l: "parseFloat (style_left (elems st ''plant1'')) = Fin L"
    using assms by (simp_all add: px_length_def)
  have px: "px_length ([Nr (Fin v)] @ lit ''px'') v" for v
    by (simp add: px_length_def parseFloat_def lit_def)
  have e: "style_left (elems (run [PointerDown ''plant1'' \<lparr>clientX = 100, clientY = 100\<rparr> lay,
                               PointerMove \<lparr>clientX = 80, clientY = 130\<rparr>] st) ''plant1'')
           = [Nr (Fin (L - 20))] @ lit ''px''
       \<and> style_top (elems (run [PointerDown ''plant1'' \<lparr>clientX = 100, clientY = 100\<rparr> lay,
                               PointerMove \<lparr>clientX = 80, clientY = 130\<rparr>] st) ''plant1'')
           = [Nr (Fin (T + 30))] @ lit ''px''
       \<and> (statusElement st \<noteq> None \<longrightarrow>
            (case statusElement (run [PointerDown ''plant1'' \<lparr>clientX = 100, clientY = 100\<rparr> lay,
                               PointerMove \<lparr>clientX = 80, clientY = 130\<rparr>] st) of
               None \<Rightarrow> False
             | Some m \<Rightarrow> render m = Some ''Dragging plant1 | X:80, Y:130''))"
    using t l parseFloat_Fin_nonempty [OF t] status_text
    by (auto simp add: run_def step_def plant1_draggable onpointerdown_def handlePointerDown_def
        handlePointerMove_def updateStatus_def num_sub_def num_or_def Let_def
        split: option.splits)
  show ?thesis
    using e px [of "L - 20"] px [of "T + 30"] by simp
qed

theorem C3_drag_follows_pointer_witness:
  "px_length (style_top (elems placed_page ''plant1'')) 200
   \<and> px_length (style_left (elems placed_page ''plant1'')) 300
   \<and> statusElement placed_page \<noteq> None
   \<and> style_left (elems (run [PointerDown ''plant1'' \<lparr>clientX = 100, clientY = 100\<rparr> origin_layout,
                             PointerMove \<lparr>clientX = 80, clientY = 130\<rparr>] placed_page) ''plant1'')
       = [Nr (Fin 280)] @ lit ''px''
   \<and> style_top (elems (run [PointerDown ''plant1'' \<lparr>clientX = 100, clientY = 100\<rparr> origin_layout,
                            PointerMove \<lparr>clientX = 80, clientY = 130\<rparr>] placed_page) ''plant1'')
       = [Nr (Fin 230)] @ lit ''px''
   \<and> (case statusElement (run [PointerDown ''plant1'' \<lparr>clientX = 100, clientY = 100\<rparr> origin_layout,
                         PointerMove \<lparr>clientX = 80, clientY = 130\<rparr>] placed_page) of
         None \<Rightarrow> False
       | Some m \<Rightarrow> render m = Some ''Dragging plant1 | X:80, Y:130'')"
proof -
  have t: "px_length (style_top (elems placed_page ''plant1'')) 200"
    by (simp add: px_length_def page_defs string_defs)
  have l: "px_length (style_left (elems placed_page ''plant1'')) 300"
    by (simp add: px_length_def page_defs string_defs)
  have s: "statusElement placed_page \<noteq> None"
    by (simp add: page_defs)
  show ?thesis
    using C3_drag_follows_pointer [OF t l, of origin_layout] t l s by simp
qed

text \<open>
  C7: a drag whose pointer ends where it started leaves the position (top, left) as it
  was before the drag.

  On a fresh page the start-up code has placed \<open>plant1\<close> at top 50%, left 50%. Pointer-down
  converts the position to pixels only when top is empty or \<^verbatim>\<open>auto\<close>, so the first move
  reads 50 from \<^verbatim>\<open>50%\<close> and writes it back in pixels: after a pointer-down at (100,100),
  a move to (110,120), a move back to (100,100) and a pointer-up, the position is 50px,
  50px.
\<close>

theorem C7_zero_drag_changes_position:
  "style_top (elems fresh_page ''plant1'') = lit ''50%''
   \<and> style_left (elems fresh_page ''plant1'') = lit ''50%''
   \<and> style_top (elems (run [PointerDown ''plant1'' \<lparr>clientX = 100, clientY = 100\<rparr> origin_layout,
                            PointerMove \<lparr>clientX = 110, clientY = 120\<rparr>,
                            PointerMove \<lparr>clientX = 100, clientY = 100\<rparr>, PointerUp]
                         fresh_page) ''plant1'')
       = [Nr (Fin 50)] @ lit ''px''
   \<and> style_left (elems (run [PointerDown ''plant1'' \<lparr>clientX = 100, clientY = 100\<rparr> origin_layout,
                             PointerMove \<lparr>clientX = 110, clientY = 120\<rparr>,
                             PointerMove \<lparr>clientX = 100, clientY = 100\<rparr>, PointerUp]
                          fresh_page) ''plant1'')
       = [Nr (Fin 50)] @ lit ''px''
   \<and> last (lit ''50%'') \<noteq> last ([Nr (Fin 50)] @ lit ''px'')"
  by (simp add: model_defs page_defs plant1_draggable string_defs)

text \<open>
  When the position is already in pixels the round trip holds, in exact arithmetic and
  for a style object that keeps the assigned text: a pointer-down, any moves that end
  where the pointer went down, and a pointer-up leave top and left as they were.
\<close>

lemma parseFloat_px: "parseFloat ([Nr x] @ lit ''px'') = x"
  by (simp add: parseFloat_def)

lemma tracking_PointerDown:
  assumes "el \<in> set draggableIds"
    and "style_top (elems st el) = [Nr (Fin T)] @ lit ''px''"
    and "style_left (elems st el) = [Nr (Fin L)] @ lit ''px''"
  shows "tracking (step st (PointerDown el p lay)) el T L p"
  using assms
  by (simp add: tracking_def step_def onpointerdown_def handlePointerDown_def Let_def lit_def)

lemma tracking_PointerMove:
  assumes "tracking st el T L p"
  shows "tracking (step st (PointerMove q)) el
           (T + (clientY q - clientY p)) (L + (clientX q - clientX p)) q"
  using assms
  by (auto simp add: tracking_def step_def handlePointerMove_def updateStatus_def Let_def
      parseFloat_def num_or_def num_sub_def split: option.splits)

lemma tracking_moves:
  assumes "tracking st el T L p"
  shows "tracking (run (map PointerMove ps) st) el
           (T + (clientY (last (p # ps)) - clientY p))
           (L + (clientX (last (p # ps)) - clientX p)) (last (p # ps))"
  using assms
proof (induction ps arbitrary: st T L p)
  case Nil
  then show ?case by (simp add: run_def)
next
  case (Cons q ps)
  have r: "run (map PointerMove (q # ps)) st = run (map PointerMove ps) (step st (PointerMove q))"
    by (simp add: run_def)
  have l: "last (p # q # ps) = last (q # ps)" by simp
  show ?case
    using Cons.IH [OF tracking_PointerMove [OF Cons.prems, of q]]
    by (simp only: r l) (simp add: algebra_simps)
qed

lemma drag_round_trip_px:
  assumes "el \<in> set draggableIds"
    and "style_top (elems st el) = [Nr (Fin T)] @ lit ''px''"
    and "style_left (elems st el) = [Nr (Fin L)] @ lit ''px''"
    and "last (p # ps) = p"
  shows "style_top (elems (run (PointerDown el p lay # map PointerMove ps @ [PointerUp]) st) el)
           = style_top (elems st el)
       \<and> style_left (elems (run (PointerDown el p lay # map PointerMove ps @ [PointerUp]) st) el)
           = style_left (elems st el)"
proof -
  define st2 where "st2 = run (map PointerMove ps) (step st (PointerDown el p lay))"
  have t: "tracking st2 el T L p"
    using tracking_moves [OF tracking_PointerDown [OF assms(1-3), of p lay], of ps] assms(4)
    by (simp add: st2_def)
  have r: "run (PointerDown el p lay # map PointerMove ps @ [PointerUp]) st = step st2 PointerUp"
    by (simp add: run_def st2_def)
  show ?thesis
    unfolding r using t assms(2,3)
    by (auto simp add: tracking_def step_def handlePointerUp_def updateStatus_def upd_elem_def
        split: option.splits)
qed

section \<open>Re-parsing the transform (C8)\<close>

text \<open>
  C8 as stated: when the transform string has no recognisable scale or rotation, the
  parse on pointer-down and in the keyboard handler falls back to scale 1 and rotation 0.

  On pointer-down this is false. After a two-finger move with both touches at (10,10) on
  a fresh page the stored scale is NaN and the transform holds the text of NaN, which the
  scale expression does not match; the following pointer-down keeps NaN as the scale.
\<close>

theorem C8_counterexample:
  "scale_in (style_transform (elems (run [TouchMove ''plant1''
        [\<lparr>clientX = 10, clientY = 10\<rparr>, \<lparr>clientX = 10, clientY = 10\<rparr>]] fresh_page) ''plant1''))
     = None
   \<and> scale (elems (run [TouchMove ''plant1''
        [\<lparr>clientX = 10, clientY = 10\<rparr>, \<lparr>clientX = 10, clientY = 10\<rparr>],
        PointerDown ''plant1'' \<lparr>clientX = 100, clientY = 100\<rparr> origin_layout] fresh_page) ''plant1'')
     = NaN
   \<and> NaN \<noteq> Fin 1"
  by (simp add: model_defs page_defs plant1_draggable string_defs scale_in_def)

text \<open>
  C8 as amended: neither re-parse raises an error. On pointer-down, a transform with no
  recognisable scale (rotation) leaves the element's stored scale (rotation) as it was,
  which is 1 (0) when the script starts. In the keyboard handler the missing scale counts
  as 1 and the missing rotation as 0.
\<close>

theorem C8_reparse_fallback:
  assumes "el \<in> set draggableIds"
  shows "fst (dispatch (PointerDown el p lay) st) = None
    \<and> (scale_in (style_transform (elems st el)) = None \<longrightarrow>
         scale (elems (step st (PointerDown el p lay)) el) = scale (elems st el))
    \<and> (rotation_in (style_transform (elems st el)) = None \<longrightarrow>
         rotation (elems (step st (PointerDown el p lay)) el) = rotation (elems st el))
    \<and> scale (elems (init_state doc status) el) = Fin 1
    \<and> rotation (elems (init_state doc status) el) = Fin 0
    \<and> (selectedElement st = Some el \<and> scale_in (style_transform (elems st el)) = None \<longrightarrow>
         (\<forall>r. rotation_in (style_transform (elems st el)) = Some r \<longrightarrow>
            style_transform (elems (keydown ''ArrowUp'' st) el) = keyboard_text (Fin (11 / 10)) r
          \<and> style_transform (elems (keydown ''ArrowDown'' st) el) = keyboard_text (Fin (9 / 10)) r))
    \<and> (selectedElement st = Some el \<and> rotation_in (style_transform (elems st el)) = None \<longrightarrow>
         (\<forall>s. scale_in (style_transform (elems st el)) = Some s \<longrightarrow>
            style_transform (elems (keydown ''ArrowLeft'' st) el) = keyboard_text s (Fin 345)
          \<and> style_transform (elems (keydown ''ArrowRight'' st) el) = keyboard_text s (Fin 15)))
    \<and> (selectedElement st = Some el \<and> scale_in (style_transform (elems st el)) = None
        \<and> rotation_in (style_transform (elems st el)) = None \<longrightarrow>
            style_transform (elems (keydown ''ArrowUp'' st) el)
              = keyboard_text (Fin (11 / 10)) (Fin 0)
          \<and> style_transform (elems (keydown ''ArrowDown'' st) el)
              = keyboard_text (Fin (9 / 10)) (Fin 0)
          \<and> style_transform (elems (keydown ''ArrowLeft'' st) el)
              = keyboard_text (Fin 1) (Fin 345)
          \<and> style_transform (elems (keydown ''ArrowRight'' st) el)
              = keyboard_text (Fin 1) (Fin 15))"
  using assms
  by (auto simp add: step_def onpointerdown_def handlePointerDown_def keydown_def upd_elem_def
      init_state_def init_elem_def makeElementDraggable_def Let_def scale_in_def rotation_in_def
      keyboard_text_def Math_min_def Math_max_def num_sub_def trunc_def split: option.splits)

lemma selected_page_selected: "selectedElement (selected_page t) = Some ''plant1''"
  by (simp add: selected_page_def styled_page_def model_defs page_defs plant1_draggable)

lemma selected_page_transform: "style_transform (elems (selected_page t) ''plant1'') = t"
  by (simp add: selected_page_def styled_page_def model_defs page_defs plant1_draggable lit_def)

theorem C8_reparse_fallback_witness:
  "''plant1'' \<in> set draggableIds
   \<and> selectedElement (selected_page (lit ''translate(-50%, -50%)'')) = Some ''plant1''
   \<and> scale_in (lit ''translate(-50%, -50%)'') = None
   \<and> rotation_in (lit ''translate(-50%, -50%)'') = None
   \<and> scale (elems (step (selected_page (lit ''translate(-50%, -50%)''))
                     (PointerDown ''plant1'' \<lparr>clientX = 5, clientY = 5\<rparr> origin_layout)) ''plant1'')
     = Fin 1
   \<and> rotation (elems (step (selected_page (lit ''translate(-50%, -50%)''))
                     (PointerDown ''plant1'' \<lparr>clientX = 5, clientY = 5\<rparr> origin_layout)) ''plant1'')
     = Fin 0
   \<and> style_transform (elems (keydown ''ArrowUp'' (selected_page (lit ''translate(-50%, -50%)''))) ''plant1'')
     = keyboard_text (Fin (11 / 10)) (Fin 0)
   \<and> style_transform (elems (keydown ''ArrowLeft'' (selected_page (lit ''translate(-50%, -50%)''))) ''plant1'')
     = keyboard_text (Fin 1) (Fin 345)
   \<and> scale_in (lit ''rotate(30deg)'') = None
   \<and> rotation_in (lit ''rotate(30deg)'') = Some (Fin 30)
   \<and> style_transform (elems (keydown ''ArrowDown'' (selected_page (lit ''rotate(30deg)''))) ''plant1'')
     = keyboard_text (Fin (9 / 10)) (Fin 30)
   \<and> rotation_in (lit ''scale(2)'') = None
   \<and> scale_in (lit ''scale(2)'') = Some (Fin 2)
   \<and> style_transform (elems (keydown ''ArrowRight'' (selected_page (lit ''scale(2)''))) ''plant1'')
     = keyboard_text (Fin 2) (Fin 15)"
proof -
  have a: "scale_in (lit ''translate(-50%, -50%)'') = None" "rotation_in (lit ''translate(-50%, -50%)'') = None"
    by (simp_all add: scale_in_def rotation_in_def string_defs)
  have b: "scale_in (lit ''rotate(30deg)'') = None" "rotation_in (lit ''rotate(30deg)'') = Some (Fin 30)"
    by (simp_all add: scale_in_def rotation_in_def string_defs)
  have c: "rotation_in (lit ''scale(2)'') = None" "scale_in (lit ''scale(2)'') = Some (Fin 2)"
    by (simp_all add: scale_in_def rotation_in_def string_defs)
  have s0: "scale (elems (selected_page (lit ''translate(-50%, -50%)'')) ''plant1'') = Fin 1"
      "rotation (elems (selected_page (lit ''translate(-50%, -50%)'')) ''plant1'') = Fin 0"
    by (simp_all add: selected_page_def styled_page_def model_defs page_defs plant1_draggable string_defs)
  show ?thesis
    using C8_reparse_fallback [OF plant1_draggable, of "\<lparr>clientX = 5, clientY = 5\<rparr>" origin_layout
        "selected_page (lit ''translate(-50%, -50%)'')"]
      C8_reparse_fallback [OF plant1_draggable, of _ _ "selected_page (lit ''rotate(30deg)'')"]
      C8_reparse_fallback [OF plant1_draggable, of _ _ "selected_page (lit ''scale(2)'')"]
      plant1_draggable a b c s0
    by (simp add: selected_page_selected selected_page_transform)
qed

section \<open>A two-touch move with the start distance at zero (C10)\<close>

text \<open>
  C10 as stated: a two-touch move processed while the stored start distance is 0, as
  after a touch end that leaves fewer than two touches, makes the stored scale NaN.

  With the current touches at (0,0) and (50,0) this is false: the ratio 50/0 is
  Infinity, the product with the baseline 1 is Infinity, and the clamp gives 3.
\<close>

theorem C10_counterexample:
  "touchStartDistance
     (elems (run [TouchStart ''plant1'' [\<lparr>clientX = 0, clientY = 0\<rparr>, \<lparr>clientX = 100, clientY = 0\<rparr>]
                    origin_layout,
                  TouchEnd ''plant1'' [\<lparr>clientX = 0, clientY = 0\<rparr>]] fresh_page) ''plant1'')
     = Fin 0
   \<and> scale
     (elems (run [TouchStart ''plant1'' [\<lparr>clientX = 0, clientY = 0\<rparr>, \<lparr>clientX = 100, clientY = 0\<rparr>]
                    origin_layout,
                  TouchEnd ''plant1'' [\<lparr>clientX = 0, clientY = 0\<rparr>],
                  TouchMove ''plant1'' [\<lparr>clientX = 0, clientY = 0\<rparr>, \<lparr>clientX = 50, clientY = 0\<rparr>]]
               fresh_page) ''plant1'')
     = Fin 3
   \<and> Fin 3 \<noteq> NaN"
  by (simp add: model_defs page_defs plant1_draggable)

text \<open>
  C10 as amended: a touch end that leaves fewer than two touches resets the stored start
  distance to 0; a two-touch move processed then, with a positive finite baseline scale,
  makes the stored scale NaN when the two current touches are at the same point (0/0),
  and 3, the upper end of the clamp, otherwise (the ratio is Infinity).
\<close>

theorem C10_zero_start_distance:
  assumes "el \<in> set draggableIds" and "length ts < 2"
    and "initialScale (elems st el) = Fin s" and "0 < s"
  shows "touchStartDistance (elems (step st (TouchEnd el ts)) el) = Fin 0
       \<and> scale (elems (run [TouchEnd el ts, TouchMove el [t1, t2]] st) el)
         = (if getDistance t1 t2 = 0 then NaN else Fin 3)"
  using assms getDistance_nonneg [of t1 t2]
  by (auto simp add: run_def step_def touchend_def touchmove_def handlePointerUp_def
      updateStatus_def upd_elem_def updateTransform_def Math_min_def Math_max_def Let_def
      split: option.splits)

theorem C10_zero_start_distance_witness:
  "''plant1'' \<in> set draggableIds
   \<and> length [\<lparr>clientX = 0, clientY = 0\<rparr>] < 2
   \<and> initialScale (elems fresh_page ''plant1'') = Fin 1 \<and> (0 :: real) < 1
   \<and> touchStartDistance
       (elems (step fresh_page (TouchEnd ''plant1'' [\<lparr>clientX = 0, clientY = 0\<rparr>])) ''plant1'')
     = Fin 0
   \<and> scale (elems (run [TouchEnd ''plant1'' [\<lparr>clientX = 0, clientY = 0\<rparr>],
                        TouchMove ''plant1''
                          [\<lparr>clientX = 0, clientY = 0\<rparr>, \<lparr>clientX = 50, clientY = 0\<rparr>]]
                     fresh_page) ''plant1'')
     = Fin 3
   \<and> scale (elems (run [TouchEnd ''plant1'' [\<lparr>clientX = 0, clientY = 0\<rparr>],
                        TouchMove ''plant1''
                          [\<lparr>clientX = 7, clientY = 7\<rparr>, \<lparr>clientX = 7, clientY = 7\<rparr>]]
                     fresh_page) ''plant1'')
     = NaN"
proof -
  have i: "initialScale (elems fresh_page ''plant1'') = Fin 1"
    by (simp add: page_defs)
  have n: "length [\<lparr>clientX = 0, clientY = 0\<rparr>] < 2"
    by simp
  have far: "getDistance \<lparr>clientX = 0, clientY = 0\<rparr> \<lparr>clientX = 50, clientY = 0\<rparr> \<noteq> 0"
    by (simp add: getDistance_def)
  have same: "getDistance \<lparr>clientX = 7, clientY = 7\<rparr> \<lparr>clientX = 7, clientY = 7\<rparr> = 0"
    by (simp add: getDistance_def)
  show ?thesis
    using C10_zero_start_distance [OF plant1_draggable n i, of
        "\<lparr>clientX = 0, clientY = 0\<rparr>" "\<lparr>clientX = 50, clientY = 0\<rparr>"]
      C10_zero_start_distance [OF plant1_draggable n i, of
        "\<lparr>clientX = 7, clientY = 7\<rparr>" "\<lparr>clientX = 7, clientY = 7\<rparr>"]
      plant1_draggable i far same
    by simp
qed

section \<open>Pinch and twist (C5)\<close>








section \<open>Keyboard control (C6)\<close>

text \<open>
  C6: a key-down with no selected element changes nothing. With a selected element, and
  with the scale and rotation read from its transform string (1 and 0 where the string has
  none), ArrowUp writes the scale min(3, scale + 0.1), ArrowDown writes max(0.3, scale -
  0.1), ArrowLeft writes the rotation (rotation - 15 + 360) % 360 and ArrowRight writes
  (rotation + 15) % 360; the key changes the transform string of the selected element and
  nothing else.
\<close>

theorem C6_keydown:
  "(selectedElement st = None \<longrightarrow> keydown key st = st)
   \<and> (\<forall>sel. selectedElement st = Some sel \<longrightarrow>
        (\<forall>s0 r0.
           s0 = (case scale_in (style_transform (elems st sel)) of Some s \<Rightarrow> s | None \<Rightarrow> Fin 1)
           \<and> r0 = (case rotation_in (style_transform (elems st sel)) of Some r \<Rightarrow> r | None \<Rightarrow> Fin 0)
           \<longrightarrow>
           keydown ''ArrowUp'' st
             = upd_elem sel (\<lambda>e. e\<lparr>style_transform :=
                 keyboard_text (Math_min (Fin 3) (num_add s0 (Fin (1 / 10)))) r0\<rparr>) st
         \<and> keydown ''ArrowDown'' st
             = upd_elem sel (\<lambda>e. e\<lparr>style_transform :=
                 keyboard_text (Math_max (Fin (3 / 10)) (num_sub s0 (Fin (1 / 10)))) r0\<rparr>) st
         \<and> keydown ''ArrowLeft'' st
             = upd_elem sel (\<lambda>e. e\<lparr>style_transform :=
                 keyboard_text s0 (num_rem (num_add (num_sub r0 (Fin 15)) (Fin 360)) (Fin 360))\<rparr>) st
         \<and> keydown ''ArrowRight'' st
             = upd_elem sel (\<lambda>e. e\<lparr>style_transform :=
                 keyboard_text s0 (num_rem (num_add r0 (Fin 15)) (Fin 360))\<rparr>) st))"
  by (auto simp add: keydown_def scale_in_def rotation_in_def keyboard_text_def Let_def
      split: option.splits)

theorem C6_keydown_witness:
  "selectedElement fresh_page = None
   \<and> keydown ''ArrowUp'' fresh_page = fresh_page
   \<and> selectedElement (selected_page (lit ''scale(2.95) rotate(350deg)'')) = Some ''plant1''
   \<and> scale_in (lit ''scale(2.95) rotate(350deg)'') = Some (Fin (295 / 100))
   \<and> rotation_in (lit ''scale(2.95) rotate(350deg)'') = Some (Fin 350)
   \<and> style_transform (elems (keydown ''ArrowUp'' (selected_page (lit ''scale(2.95) rotate(350deg)'')))
        ''plant1'') = keyboard_text (Fin 3) (Fin 350)
   \<and> style_transform (elems (keydown ''ArrowDown'' (selected_page (lit ''scale(2.95) rotate(350deg)'')))
        ''plant1'') = keyboard_text (Fin (285 / 100)) (Fin 350)
   \<and> style_transform (elems (keydown ''ArrowLeft'' (selected_page (lit ''scale(2.95) rotate(350deg)'')))
        ''plant1'') = keyboard_text (Fin (295 / 100)) (Fin 335)
   \<and> style_transform (elems (keydown ''ArrowRight'' (selected_page (lit ''scale(2.95) rotate(350deg)'')))
        ''plant1'') = keyboard_text (Fin (295 / 100)) (Fin 5)"
proof -
  have n: "selectedElement fresh_page = None"
    by (simp add: page_defs)
  have p: "scale_in (lit ''scale(2.95) rotate(350deg)'') = Some (Fin (295 / 100))"
    "rotation_in (lit ''scale(2.95) rotate(350deg)'') = Some (Fin 350)"
    by (simp_all add: scale_in_def rotation_in_def string_defs)
  show ?thesis
    using C6_keydown [of fresh_page "''ArrowUp''"]
      C6_keydown [of "selected_page (lit ''scale(2.95) rotate(350deg)'')"]
      n p
    by (simp add: selected_page_selected selected_page_transform upd_elem_def
        Math_min_def Math_max_def num_sub_def trunc_def)
qed

text \<open>
  Over the reals, for a finite scale \<open>s\<close> and a rotation \<open>r\<close> within \<open>[0, 360)\<close>, the four
  results are min(3, s + 0.1), max(0.3, s - 0.1), r - 15 wrapped below 0, and r + 15
  wrapped at 360.
\<close>

lemma arrow_arithmetic:
  "Math_min (Fin 3) (num_add (Fin s) (Fin (1 / 10))) = Fin (min 3 (s + 1 / 10))"
  "Math_max (Fin (3 / 10)) (num_sub (Fin s) (Fin (1 / 10))) = Fin (max (3 / 10) (s - 1 / 10))"
  "0 \<le> r \<Longrightarrow> r < 360 \<Longrightarrow>
     num_rem (num_add (num_sub (Fin r) (Fin 15)) (Fin 360)) (Fin 360)
     = Fin (if r < 15 then r + 345 else r - 15)"
  "0 \<le> r \<Longrightarrow> r < 360 \<Longrightarrow>
     num_rem (num_add (Fin r) (Fin 15)) (Fin 360) = Fin (if r < 345 then r + 15 else r - 345)"
proof -
  show "Math_min (Fin 3) (num_add (Fin s) (Fin (1 / 10))) = Fin (min 3 (s + 1 / 10))"
    by (simp add: Math_min_Fin)
  show "Math_max (Fin (3 / 10)) (num_sub (Fin s) (Fin (1 / 10))) = Fin (max (3 / 10) (s - 1 / 10))"
    by (simp add: Math_max_Fin num_sub_def)
  show "num_rem (num_add (num_sub (Fin r) (Fin 15)) (Fin 360)) (Fin 360)
     = Fin (if r < 15 then r + 345 else r - 15)" if "0 \<le> r" "r < 360"
  proof (cases "r < 15")
    case True
    then have "\<lfloor>(r - 15 + 360) / 360\<rfloor> = 0" using that by (simp add: floor_eq_iff)
    then show ?thesis using that True by (simp add: num_sub_def trunc_def add.commute)
  next
    case False
    then have "\<lfloor>(r - 15 + 360) / 360\<rfloor> = 1" using that by (simp add: floor_eq_iff)
    then show ?thesis using that False by (simp add: num_sub_def trunc_def add.commute)
  qed
  show "num_rem (num_add (Fin r) (Fin 15)) (Fin 360) = Fin (if r < 345 then r + 15 else r - 345)"
    if "0 \<le> r" "r < 360"
  proof (cases "r < 345")
    case True
    then have "\<lfloor>(r + 15) / 360\<rfloor> = 0" using that by (simp add: floor_eq_iff)
    then show ?thesis using that True by (simp add: trunc_def)
  next
    case False
    then have "\<lfloor>(r + 15) / 360\<rfloor> = 1" using that by (simp add: floor_eq_iff)
    then show ?thesis using that False by (simp add: trunc_def)
  qed
qed

section \<open>Wheel and context menu outside a drag (C9)\<close>

lemma handlers_step:
  "handlers (step st ev) =
     (case ev of
        PointerDown el p lay \<Rightarrow>
          if el \<in> set draggableIds then (Some el, Some el, Some el, Some el) else handlers st
      | PointerUp \<Rightarrow> if onpointerup st = None then handlers st else (None, None, None, None)
      | TouchEnd el touches \<Rightarrow>
          if el \<in> set draggableIds \<and> touches = [] then (None, None, None, None) else handlers st
      | _ \<Rightarrow> handlers st)"
  by (cases ev)
     (auto simp add: handlers_def step_def keydown_def touchstart_def touchmove_def touchend_def
        onpointerdown_def handlePointerDown_def handlePointerMove_def handlePointerUp_def
        handleWheel_def handleRightClick_def updateStatus_def upd_elem_def Let_def
        split: option.splits list.splits)

lemma handlers_init: "handlers (init_state doc status) = (None, None, None, None)"
  by (simp add: handlers_def init_state_def)

lemma handlers_run:
  "(handlers (run evs (init_state doc status)) = (None, None, None, None) \<or> dragging evs)
   \<and> (\<exists>h. handlers (run evs (init_state doc status)) = (h, h, h, h))"
proof (induction evs rule: rev_induct)
  case Nil
  then show ?case by (simp add: run_def handlers_init)
next
  case (snoc ev evs)
  have r: "run (evs @ [ev]) (init_state doc status) = step (run evs (init_state doc status)) ev"
    by (simp add: run_def)
  have d: "dragging (evs @ [ev]) = drag_after (dragging evs) ev"
    by (simp add: dragging_def)
  from snoc obtain h where h: "handlers (run evs (init_state doc status)) = (h, h, h, h)"
    and hd: "h = None \<or> dragging evs"
    by auto
  have up: "onpointerup (run evs (init_state doc status)) = h"
    using h by (simp add: handlers_def)
  show ?case
    unfolding r d handlers_step using h hd up
    by (cases ev) auto
qed

text \<open>
  C9: the wheel and context-menu handlers are registered only by \<^verbatim>\<open>handlePointerDown\<close>
  and removed by \<^verbatim>\<open>handlePointerUp\<close>. After any events from the start of the page that
  leave no drag in progress, both handler properties are \<^verbatim>\<open>null\<close>, and a wheel or
  context-menu event on any target leaves the whole state unchanged.
\<close>

theorem C9_wheel_and_menu_only_while_dragging:
  assumes "\<not> dragging evs"
  shows "step (run evs (init_state doc status)) (Wheel target deltaY) = run evs (init_state doc status)
       \<and> step (run evs (init_state doc status)) (ContextMenu target) = run evs (init_state doc status)
       \<and> onwheel (run evs (init_state doc status)) = None
       \<and> oncontextmenu (run evs (init_state doc status)) = None"
proof -
  have "handlers (run evs (init_state doc status)) = (None, None, None, None)"
    using handlers_run [of evs doc status] assms by simp
  then have "onwheel (run evs (init_state doc status)) = None"
    "oncontextmenu (run evs (init_state doc status)) = None"
    by (simp_all add: handlers_def)
  then show ?thesis by (simp add: step_def)
qed

theorem C9_wheel_and_menu_only_while_dragging_witness:
  "\<not> dragging [PointerDown ''plant1'' \<lparr>clientX = 100, clientY = 100\<rparr> origin_layout,
                 Wheel ''plant1'' (- 1), PointerUp]
   \<and> scale (elems (run [PointerDown ''plant1'' \<lparr>clientX = 100, clientY = 100\<rparr> origin_layout,
                        Wheel ''plant1'' (- 1), PointerUp] fresh_page) ''plant1'') = Fin (105 / 100)
   \<and> step (run [PointerDown ''plant1'' \<lparr>clientX = 100, clientY = 100\<rparr> origin_layout,
                Wheel ''plant1'' (- 1), PointerUp] fresh_page) (Wheel ''plant1'' (- 1))
     = run [PointerDown ''plant1'' \<lparr>clientX = 100, clientY = 100\<rparr> origin_layout,
            Wheel ''plant1'' (- 1), PointerUp] fresh_page
   \<and> step (run [PointerDown ''plant1'' \<lparr>clientX = 100, clientY = 100\<rparr> origin_layout,
                Wheel ''plant1'' (- 1), PointerUp] fresh_page) (ContextMenu ''plant1'')
     = run [PointerDown ''plant1'' \<lparr>clientX = 100, clientY = 100\<rparr> origin_layout,
            Wheel ''plant1'' (- 1), PointerUp] fresh_page"
proof -
  have d: "\<not> dragging [PointerDown ''plant1'' \<lparr>clientX = 100, clientY = 100\<rparr> origin_layout,
                 Wheel ''plant1'' (- 1), PointerUp]"
    by (simp add: dragging_def)
  have s: "scale (elems (run [PointerDown ''plant1'' \<lparr>clientX = 100, clientY = 100\<rparr> origin_layout,
                        Wheel ''plant1'' (- 1), PointerUp] fresh_page) ''plant1'') = Fin (105 / 100)"
    by (simp add: model_defs page_defs plant1_draggable string_defs)
  show ?thesis
    using C9_wheel_and_menu_only_while_dragging [OF d, of "\<lambda>i. blank_elem" "Some []" "''plant1''" "- 1"] d s
    by (simp add: fresh_page_def)
qed

section \<open>Rotation stays within a turn (C4)\<close>

lemma rotation_in_full:
  "rotation_in (lit ''translate(-50%, -50%) scale('' @ [Nr s] @ lit '') rotate('' @ [Nr r] @ lit ''deg)'')
   = (if cls_digit_dot_minus (Nr r) then Some r else None)"
  by (simp add: rotation_in_def rotateRe_def lit_def match_at_def is_digit_def parseFloat_def)

lemma rotation_in_keyboard:
  "rotation_in (lit ''scale('' @ [Nr s] @ lit '') rotate('' @ [Nr r] @ lit ''deg)'')
   = (if cls_digit_dot_minus (Nr r) then Some r else None)"
  by (simp add: rotation_in_def rotateRe_def lit_def match_at_def is_digit_def parseFloat_def)

lemma rot_text_ok_full:
  "in_turn r \<Longrightarrow>
   rot_text_ok (lit ''translate(-50%, -50%) scale('' @ [Nr s] @ lit '') rotate('' @ [Nr r] @ lit ''deg)'')"
  unfolding rot_text_ok_def rotation_in_full by simp

lemma rot_text_ok_keyboard:
  "in_turn r \<Longrightarrow> rot_text_ok (lit ''scale('' @ [Nr s] @ lit '') rotate('' @ [Nr r] @ lit ''deg)'')"
  unfolding rot_text_ok_def rotation_in_keyboard by simp

lemma rot_text_ok_centre: "rot_text_ok (lit ''translate(-50%, -50%)'')"
  by (simp add: rot_text_ok_def rotation_in_def string_defs)

lemma in_turn_0: "in_turn (Fin 0)"
  by (simp add: in_turn_def)

lemma half_turn_0: "half_turn (Fin 0)"
  by (simp add: half_turn_def)

lemma half_turn_getAngle: "half_turn (Fin (getAngle p1 p2))"
  using getAngle_bounds [of p1 p2] by (simp add: half_turn_def)

lemma in_turn_add15:
  assumes "in_turn x"
  shows "in_turn (num_rem (num_add x (Fin 15)) (Fin 360))"
proof -
  from assms obtain r where x: "x = Fin r" and r: "0 \<le> r"
    by (cases x) (simp_all add: in_turn_def)
  have "in_turn (num_rem (Fin (r + 15)) (Fin 360))"
    using r by (intro in_turn_rem) simp
  then show ?thesis by (simp only: x num_add.simps)
qed

lemma in_turn_sub15:
  assumes "in_turn x"
  shows "in_turn (num_rem (num_add (num_sub x (Fin 15)) (Fin 360)) (Fin 360))"
proof -
  from assms obtain r where x: "x = Fin r" and r: "0 \<le> r"
    by (cases x) (simp_all add: in_turn_def)
  have e: "num_add (num_sub x (Fin 15)) (Fin 360) = Fin (r - 15 + 360)"
    by (simp add: x num_sub_def)
  have "in_turn (num_rem (Fin (r - 15 + 360)) (Fin 360))"
    using r by (intro in_turn_rem) simp
  then show ?thesis by (simp only: e)
qed

lemma in_turn_twist:
  assumes "in_turn x" and "half_turn s"
  shows "in_turn (num_rem (num_add (num_add x (num_sub (Fin (getAngle c d)) s)) (Fin 360)) (Fin 360))"
proof -
  from assms(1) obtain r where x: "x = Fin r" and r: "0 \<le> r"
    by (cases x) (simp_all add: in_turn_def)
  from assms(2) obtain a where s: "s = Fin a" and a: "a \<le> 180"
    by (cases s) (simp_all add: half_turn_def)
  have e: "num_add (num_add x (num_sub (Fin (getAngle c d)) s)) (Fin 360)
           = Fin (r + (getAngle c d - a) + 360)"
    by (simp add: x s num_sub_def)
  have "0 \<le> r + (getAngle c d - a) + 360"
    using r a getAngle_bounds [of c d] by linarith
  then have "in_turn (num_rem (Fin (r + (getAngle c d - a) + 360)) (Fin 360))"
    by (rule in_turn_rem)
  then show ?thesis by (simp only: e)
qed

lemma rot_ok_updateTransform:
  assumes "in_turn (rotation e)" and "in_turn (initialRotation e)"
    and "half_turn (touchStartAngle e)"
  shows "rot_ok (updateTransform e)"
proof -
  have t: "style_transform (updateTransform e)
           = lit ''translate(-50%, -50%) scale('' @ [Nr (scale e)] @
             lit '') rotate('' @ [Nr (rotation e)] @ lit ''deg)''"
    by (simp add: updateTransform_def)
  have "rot_text_ok (style_transform (updateTransform e))"
    unfolding t using assms(1) by (rule rot_text_ok_full)
  then show ?thesis
    using assms by (simp add: rot_ok_def updateTransform_def)
qed

lemma rot_ok_keyboard:
  assumes "rot_ok e" and "in_turn r"
  shows "rot_ok (e\<lparr>style_transform :=
                    lit ''scale('' @ [Nr s] @ lit '') rotate('' @ [Nr r] @ lit ''deg)''\<rparr>)"
  using assms rot_text_ok_keyboard [OF assms(2), of s]
  by (simp add: rot_ok_def)

lemma rot_ok_init_elem:
  assumes "rot_text_ok (style_transform e)"
  shows "rot_ok (init_elem e)"
  using assms rot_text_ok_centre
  by (simp add: rot_ok_def init_elem_def makeElementDraggable_def Let_def in_turn_0 half_turn_0)

lemma rot_ok_step:
  assumes "\<forall>i. rot_ok (elems st i)"
  shows "rot_ok (elems (step st ev) i)"
proof (cases ev)
  case (KeyDown key)
  show ?thesis
  proof (cases "selectedElement st")
    case None
    then show ?thesis using assms KeyDown by (simp add: step_def keydown_def)
  next
    case (Some sel)
    have ok: "rot_ok (elems st sel)" using assms by simp
    define r0 where "r0 = (case rotateRe (style_transform (elems st sel)) of
                             Some g \<Rightarrow> parseFloat g | None \<Rightarrow> Fin 0)"
    have r0: "in_turn r0"
      using ok by (auto simp add: r0_def rot_ok_def rot_text_ok_def rotation_in_def in_turn_0
          split: option.splits)
    note k = rot_ok_keyboard [OF ok r0] rot_ok_keyboard [OF ok in_turn_sub15 [OF r0]]
      rot_ok_keyboard [OF ok in_turn_add15 [OF r0]]
    show ?thesis
      using assms KeyDown Some k
      by (simp add: step_def keydown_def upd_elem_def Let_def r0_def [symmetric])
  qed
next
  case (TouchStart el touches lay)
  have ok: "rot_ok (elems st el)" using assms by simp
  show ?thesis
    using assms TouchStart ok
    by (auto simp add: step_def touchstart_def handlePointerDown_def upd_elem_def rot_ok_def
        half_turn_getAngle split: list.splits)
next
  case (TouchMove el touches)
  have ok: "rot_ok (elems st el)" using assms by simp
  show ?thesis
  proof (cases touches)
    case Nil
    then show ?thesis using assms TouchMove by (simp add: step_def touchmove_def)
  next
    case (Cons t1 ts)
    note c1 = Cons
    show ?thesis
    proof (cases ts)
      case Nil
      then show ?thesis
        using assms TouchMove c1
        by (auto simp add: step_def touchmove_def handlePointerMove_def updateStatus_def Let_def
            rot_ok_def split: option.splits)
    next
      case (Cons t2 ts')
      note c2 = Cons
      show ?thesis
      proof (cases ts')
        case Nil
        have "rot_ok (updateTransform
                (elems st el\<lparr>scale := sc,
                   rotation := num_rem (num_add (num_add (initialRotation (elems st el))
                      (num_sub (Fin (getAngle t1 t2)) (touchStartAngle (elems st el)))) (Fin 360))
                      (Fin 360)\<rparr>))" for sc
          using ok by (intro rot_ok_updateTransform) (simp_all add: rot_ok_def in_turn_twist)
        then show ?thesis
          using assms TouchMove c1 c2 Nil
          by (simp add: step_def touchmove_def upd_elem_def Let_def)
      next
        case (Cons t3 ts'')
        then show ?thesis using assms TouchMove c1 c2 by (simp add: step_def touchmove_def)
      qed
    qed
  qed
next
  case (TouchEnd el touches)
  have ok: "rot_ok (elems st el)" using assms by simp
  show ?thesis
    using assms TouchEnd ok
    by (auto simp add: step_def touchend_def handlePointerUp_def updateStatus_def upd_elem_def
        Let_def rot_ok_def half_turn_0 split: option.splits)
next
  case (PointerDown el p lay)
  have ok: "rot_ok (elems st el)" using assms by simp
  show ?thesis
    using assms PointerDown ok
    by (auto simp add: step_def onpointerdown_def handlePointerDown_def Let_def rot_ok_def
        rot_text_ok_def rotation_in_def split: option.splits)
next
  case (PointerMove p)
  show ?thesis
    using assms PointerMove
    by (auto simp add: step_def handlePointerMove_def updateStatus_def Let_def rot_ok_def
        split: option.splits)
next
  case PointerUp
  show ?thesis
    using assms PointerUp
    by (auto simp add: step_def handlePointerUp_def updateStatus_def upd_elem_def rot_ok_def
        split: option.splits)
next
  case (Wheel target deltaY)
  show ?thesis
  proof (cases "onwheel st")
    case None
    then show ?thesis using assms Wheel by (simp add: step_def)
  next
    case (Some el)
    have ok: "rot_ok (elems st el)" using assms by simp
    have "rot_ok (updateTransform (elems st el\<lparr>scale := sc\<rparr>))" for sc
      using ok by (intro rot_ok_updateTransform) (simp_all add: rot_ok_def)
    then show ?thesis
      using assms Wheel Some by (simp add: step_def handleWheel_def upd_elem_def)
  qed
next
  case (ContextMenu target)
  show ?thesis
  proof (cases "oncontextmenu st")
    case None
    then show ?thesis using assms ContextMenu by (simp add: step_def)
  next
    case (Some el)
    have ok: "rot_ok (elems st el)" using assms by simp
    have "rot_ok (updateTransform
            (elems st el\<lparr>rotation := num_rem (num_add (rotation (elems st el)) (Fin 15)) (Fin 360)\<rparr>))"
      using ok by (intro rot_ok_updateTransform) (simp_all add: rot_ok_def in_turn_add15)
    then show ?thesis
      using assms ContextMenu Some by (simp add: step_def handleRightClick_def upd_elem_def)
  qed
qed

lemma rot_ok_run:
  assumes "\<forall>i. rot_ok (elems st i)"
  shows "\<forall>i. rot_ok (elems (run evs st) i)"
proof (induction evs rule: rev_induct)
  case Nil
  then show ?case using assms by (simp add: run_def)
next
  case (snoc ev evs)
  have "run (evs @ [ev]) st = step (run evs st) ev"
    by (simp add: run_def)
  then show ?case using rot_ok_step [OF snoc] by simp
qed

text \<open>
  With a style object that keeps the assigned text, the rotation stays within
  \<open>[0, 360)\<close> along every sequence of events, for every element, in the closure and in
  the transform string: each adjustment ends in \<^verbatim>\<open>% 360\<close>, and the re-parse on
  pointer-down and in the keyboard handler reads back what an adjustment wrote.
\<close>

lemma rotation_within_turn_if_text_kept:
  assumes "\<forall>i. rot_text_ok (style_transform (doc i))"
  shows "in_turn (rotation (elems (run evs (init_state doc status)) el))
       \<and> rot_text_ok (style_transform (elems (run evs (init_state doc status)) el))"
proof -
  have "\<forall>i. rot_ok (elems (init_state doc status) i)"
    using assms by (simp add: init_state_def rot_ok_init_elem)
  then have "rot_ok (elems (run evs (init_state doc status)) el)"
    using rot_ok_run by blast
  then show ?thesis by (simp add: rot_ok_def)
qed

lemma chromium_run_snoc: "chromium_run (evs @ [ev]) st = chromium_step (chromium_run evs st) ev"
  by (simp add: chromium_run_def)







end
